theory Spec2Isabelle
  imports Main
begin

section \<open>Scene tools of the Node server (createSceneTool.ts, loadSceneTool.ts, deleteSceneTool.ts)\<close>

text \<open>
  The three handlers have the same shape: a guard on the parameters that throws a
  \<open>McpUnityError\<close> of type \<open>VALIDATION\<close>, one \<open>await mcpUnity.sendRequest\<close>, a check
  of \<open>response.success\<close>, and the construction of the tool result.

  \<open>params\<close> is typed \<open>any\<close> in the source; the schema registered with the tool admits
  strings and booleans, each possibly absent, so every field is an \<open>option\<close>.
  JavaScript's \<open>!x\<close> on such a field is true for \<open>undefined\<close> and for the empty string.

  \<open>ErrorType\<close> and \<open>McpUnityError\<close> are declared in utils/errors.ts, which is not among the
  source files. The handlers construct the members \<open>VALIDATION\<close> and \<open>TOOL_EXECUTION\<close>; the
  other two stand for what a rejected \<open>sendRequest\<close> may carry. The callback registered
  with \<open>server.tool\<close> logs and rethrows, and is left out.
\<close>

datatype ErrorType = VALIDATION | TOOL_EXECUTION | CONNECTION | TIMEOUT

datatype McpUnityError = McpUnityError ErrorType string

record scene_params =
  scenePath :: "string option"
  sceneName :: "string option"
  folderPath :: "string option"
  addToBuildSettings :: "bool option"
  makeActive :: "bool option"
  additive :: "bool option"

record request =
  request_method :: string
  params :: scene_params

record unity_response =
  success :: bool
  message :: "string option"
  type :: "string option"
  response_scenePath :: "string option"
  response_additive :: "bool option"

text \<open>
  \<open>McpUnity\<close> (unity/mcpUnity.ts) is the RPC client. Of it the handlers use only
  \<open>sendRequest\<close>: the model keeps the list of requests handed to it, in order, and a
  function giving what the awaited promise settles to (a rejection or a response).
\<close>

record McpUnity =
  sendRequest_calls :: "request list"
  settles :: "request \<Rightarrow> McpUnityError + unity_response"

definition sendRequest :: "McpUnity \<Rightarrow> request \<Rightarrow> (McpUnityError + unity_response) \<times> McpUnity" where
  "sendRequest mcpUnity req =
     (settles mcpUnity req, mcpUnity\<lparr>sendRequest_calls := sendRequest_calls mcpUnity @ [req]\<rparr>)"

record content_item =
  content_type :: "string option"
  content_text :: string

datatype tool_data =
    ScenePathData "string option"
  | ScenePathAdditiveData "string option" "bool option"

record tool_result =
  content :: "content_item list"
  data :: tool_data

text \<open>JavaScript truthiness of an optional string: \<open>undefined\<close> and \<open>""\<close> are falsy.\<close>

definition truthy :: "string option \<Rightarrow> bool" where
  "truthy v = (case v of None \<Rightarrow> False | Some s \<Rightarrow> s \<noteq> [])"

text \<open>\<open>a || b\<close> on an optional string and a string literal.\<close>

definition or_else :: "string option \<Rightarrow> string \<Rightarrow> string" where
  "or_else v d = (case v of None \<Rightarrow> d | Some s \<Rightarrow> (if s = [] then d else s))"

text \<open>A name between single quotes, as the error messages of the handlers write it.\<close>

definition single_quoted :: "string \<Rightarrow> string" where
  "single_quoted s = CHR 0x27 # s @ [CHR 0x27]"

text \<open>createSceneTool.ts, \<open>toolHandler\<close>.\<close>

definition createScene_toolHandler ::
    "McpUnity \<Rightarrow> scene_params \<Rightarrow> (McpUnityError + tool_result) \<times> McpUnity" where
  "createScene_toolHandler mcpUnity ps =
     (if \<not> truthy (sceneName ps)
      then (Inl (McpUnityError VALIDATION (single_quoted ''sceneName'' @ '' must be provided'')), mcpUnity)
      else
        (case sendRequest mcpUnity \<lparr>request_method = ''create_scene'', params = ps\<rparr> of
           (Inl err, mcpUnity') \<Rightarrow> (Inl err, mcpUnity')
         | (Inr response, mcpUnity') \<Rightarrow>
             (if \<not> success response
              then (Inl (McpUnityError TOOL_EXECUTION
                           (or_else (message response) ''Failed to create scene'')), mcpUnity')
              else (Inr \<lparr>content = [\<lparr>content_type = type response,
                                       content_text = or_else (message response)
                                                        ''Successfully created scene''\<rparr>],
                         data = ScenePathData (response_scenePath response)\<rparr>, mcpUnity'))))"

text \<open>loadSceneTool.ts, \<open>toolHandler\<close>.\<close>

definition loadScene_toolHandler ::
    "McpUnity \<Rightarrow> scene_params \<Rightarrow> (McpUnityError + tool_result) \<times> McpUnity" where
  "loadScene_toolHandler mcpUnity ps =
     (if \<not> truthy (scenePath ps) \<and> \<not> truthy (sceneName ps)
      then (Inl (McpUnityError VALIDATION
                   (''Either '' @ single_quoted ''scenePath'' @ '' or '' @ single_quoted ''sceneName''
                    @ '' must be provided'')), mcpUnity)
      else
        (case sendRequest mcpUnity \<lparr>request_method = ''load_scene'', params = ps\<rparr> of
           (Inl err, mcpUnity') \<Rightarrow> (Inl err, mcpUnity')
         | (Inr response, mcpUnity') \<Rightarrow>
             (if \<not> success response
              then (Inl (McpUnityError TOOL_EXECUTION
                           (or_else (message response) ''Failed to load scene'')), mcpUnity')
              else (Inr \<lparr>content = [\<lparr>content_type = type response,
                                       content_text = or_else (message response)
                                                        ''Successfully loaded scene''\<rparr>],
                         data = ScenePathAdditiveData (response_scenePath response)
                                                      (response_additive response)\<rparr>,
                    mcpUnity'))))"

text \<open>deleteSceneTool.ts, \<open>toolHandler\<close>.\<close>

definition deleteScene_toolHandler ::
    "McpUnity \<Rightarrow> scene_params \<Rightarrow> (McpUnityError + tool_result) \<times> McpUnity" where
  "deleteScene_toolHandler mcpUnity ps =
     (if \<not> truthy (scenePath ps) \<and> \<not> truthy (sceneName ps)
      then (Inl (McpUnityError VALIDATION
                   (''Either '' @ single_quoted ''scenePath'' @ '' or '' @ single_quoted ''sceneName''
                    @ '' must be provided'')), mcpUnity)
      else
        (case sendRequest mcpUnity \<lparr>request_method = ''delete_scene'', params = ps\<rparr> of
           (Inl err, mcpUnity') \<Rightarrow> (Inl err, mcpUnity')
         | (Inr response, mcpUnity') \<Rightarrow>
             (if \<not> success response
              then (Inl (McpUnityError TOOL_EXECUTION
                           (or_else (message response) ''Failed to delete scene'')), mcpUnity')
              else (Inr \<lparr>content = [\<lparr>content_type = type response,
                                       content_text = or_else (message response)
                                                        ''Successfully deleted scene''\<rparr>],
                         data = ScenePathData (response_scenePath response)\<rparr>, mcpUnity'))))"

section \<open>Screenshot capture in the editor (CaptureScreenshotTool.cs)\<close>

subsection \<open>Parameters\<close>

text \<open>
  \<open>parameters\<close> is a Newtonsoft \<open>JObject\<close>: a dictionary from keys to tokens, whose
  indexer gives \<open>null\<close> for an absent key. The tool applies to a token only
  \<open>ToObject<string>()\<close> and \<open>ToObject<bool>()\<close>, which belong to the JSON library and
  not to this repository. A token is therefore represented by what these two conversions
  give on it: an exception (its message, \<open>Inl\<close>) or a value, where the string may be
  \<open>null\<close> (a JSON null token). Every theorem below holds for whatever the library does.
\<close>

datatype JToken = JToken (ToObject_string: "string + string option") (ToObject_bool: "string + bool")

type_synonym JObject = "string \<rightharpoonup> JToken"

text \<open>
  \<open>String.ToLower\<close> on the ASCII letters; every other character is kept. (The source
  calls the culture-sensitive overload; the model is its behaviour under the invariant
  culture on 8-bit characters.)
\<close>

definition ToLower_char :: "char \<Rightarrow> char" where
  "ToLower_char c =
     (case map_of (zip ''ABCDEFGHIJKLMNOPQRSTUVWXYZ'' ''abcdefghijklmnopqrstuvwxyz'') c of
        None \<Rightarrow> c
      | Some l \<Rightarrow> l)"

definition ToLower :: "string \<Rightarrow> string" where
  "ToLower s = map ToLower_char s"

text \<open>\<open>parameters[key]?.ToObject<string>()?.ToLower() ?? dflt\<close>\<close>

definition string_parameter :: "JObject \<Rightarrow> string \<Rightarrow> string \<Rightarrow> string + string" where
  "string_parameter parameters key dflt =
     (case parameters key of
        None \<Rightarrow> Inr dflt
      | Some token \<Rightarrow>
          (case ToObject_string token of
             Inl e \<Rightarrow> Inl e
           | Inr None \<Rightarrow> Inr dflt
           | Inr (Some s) \<Rightarrow> Inr (ToLower s)))"

text \<open>\<open>parameters[key]?.ToObject<bool>() ?? dflt\<close>\<close>

definition bool_parameter :: "JObject \<Rightarrow> string \<Rightarrow> bool \<Rightarrow> string + bool" where
  "bool_parameter parameters key dflt =
     (case parameters key of
        None \<Rightarrow> Inr dflt
      | Some token \<Rightarrow> ToObject_bool token)"

text \<open>The \<open>switch (resolution)\<close> of \<open>ExecuteAsync\<close>, on the lowercased string.\<close>

definition dimensions :: "string \<Rightarrow> int \<times> int" where
  "dimensions resolution =
     (if resolution = ''1440p'' then (2560, 1440)
      else if resolution = ''4k'' then (3840, 2160)
      else (1920, 1080))"

subsection \<open>Editor state\<close>

text \<open>
  Scene views, cameras and render textures are objects; they are named by numbers. The
  record holds the part of the editor the tool reads or writes. \<open>trace\<close> is the sequence
  of writes and engine calls performed so far, so that what happened between two states
  can be stated.
\<close>

type_synonym view = nat
type_synonym cam = nat
type_synonym rtex = nat

datatype call =
    GetWindow | CreateDirectory | GetTemporary | Render | NewTexture2D | ReadPixels
  | Apply | EncodeToPNG | WriteAllBytes | DestroyImmediate | DebugLog | DebugLogError
  | GetActiveScene | ToolsCurrent | CameraOrthographic | CameraTransform
  | SelectionActiveGameObject

datatype event =
    DrawGizmosSet view bool
  | Repainted view
  | TargetTextureSet cam "rtex option"
  | ActiveSet "rtex option"
  | TemporaryTaken rtex int int
  | TemporaryReleased rtex
  | Called call

record editor =
  lastActiveSceneView :: "view option"
  sceneViewWindow :: "view option"
  drawGizmos :: "view \<Rightarrow> bool"
  camera :: "view \<Rightarrow> cam option"
  targetTexture :: "cam \<Rightarrow> rtex option"
  active :: "rtex option"
  temporaries :: "rtex list"
  directories :: "string list"
  files :: "string \<rightharpoonup> nat list"
  trace :: "event list"

text \<open>
  What one invocation is given from outside and does not change: which engine or
  file-system call raises (and with what message), and the values the engine reports.
  Reading or writing a property (\<open>drawGizmos\<close>, \<open>targetTexture\<close>, \<open>RenderTexture.active\<close>)
  and \<open>Repaint\<close> are taken not to raise; every other call of the tool is a \<open>call\<close> and may.
\<close>

record env =
  throws :: "call \<Rightarrow> string option"
  dataPath :: string
  now :: string
  pooled :: rtex
  png :: "nat list"
  activeSceneName :: string
  currentTool :: string
  orthographic :: "cam \<Rightarrow> bool"
  position :: "cam \<Rightarrow> string"
  eulerAngles :: "cam \<Rightarrow> string"
  activeGameObject :: "string option"

subsection \<open>Responses\<close>

record scene_context =
  context_sceneName :: string
  activeTool :: string
  cameraProjection :: string
  cameraPosition :: "string option"
  cameraRotation :: "string option"
  selectedObject :: "string option"

record screenshot =
  r_success :: bool
  r_type :: string
  r_filePath :: string
  r_timestamp :: string
  r_resolution :: string
  r_captureMethod :: string
  r_captureType :: string
  r_withGizmos :: bool
  r_withLabels :: bool
  r_mode :: string
  r_context :: scene_context
  r_message :: string

datatype response = Screenshot screenshot | ErrorResponse string string

text \<open>
  Modelled from the spec: \<open>McpUnitySocketHandler.CreateErrorResponse(message, errorType)\<close>
  is not among the source files. The spec says of a failure that it "carries a message and
  an error code"; the model is the pair of the two arguments.
\<close>

definition CreateErrorResponse :: "string \<Rightarrow> string \<Rightarrow> response" where
  "CreateErrorResponse msg errorType = ErrorResponse msg errorType"

subsection \<open>Statements\<close>

text \<open>
  A statement takes the editor to a new editor and either completes with a value (\<open>Inr\<close>)
  or raises an exception (\<open>Inl\<close>, the exception's message). \<open>bind\<close> is sequencing: an
  exception of the first part skips the second. A block runs its statements in order and
  stops at the first that raises. \<open>try_finally\<close> runs the finalizer on the editor the body
  leaves, whether the body completed, returned or raised, and passes the body's outcome on.
  \<open>try_catch\<close> hands an exception of the body to the handler.
\<close>

type_synonym 'a stmt = "editor \<Rightarrow> (string + 'a) \<times> editor"

definition return :: "'a \<Rightarrow> 'a stmt" where
  "return x s = (Inr x, s)"

definition bind :: "'a stmt \<Rightarrow> ('a \<Rightarrow> 'b stmt) \<Rightarrow> 'b stmt" where
  "bind m f s = (case m s of (Inl ex, s') \<Rightarrow> (Inl ex, s') | (Inr x, s') \<Rightarrow> f x s')"

definition try_finally :: "'a stmt \<Rightarrow> (editor \<Rightarrow> editor) \<Rightarrow> 'a stmt" where
  "try_finally body finalizer s = (case body s of (r, s') \<Rightarrow> (r, finalizer s'))"

definition try_catch :: "'a stmt \<Rightarrow> (string \<Rightarrow> 'a stmt) \<Rightarrow> 'a stmt" where
  "try_catch body handler s =
     (case body s of (Inl ex, s') \<Rightarrow> handler ex s' | (Inr x, s') \<Rightarrow> (Inr x, s'))"

definition extern :: "env \<Rightarrow> call \<Rightarrow> unit stmt" where
  "extern e c s =
     (case throws e c of
        Some ex \<Rightarrow> (Inl ex, s)
      | None \<Rightarrow> (Inr (), s\<lparr>trace := trace s @ [Called c]\<rparr>))"

definition assign :: "(editor \<Rightarrow> editor) \<Rightarrow> unit stmt" where
  "assign f s = (Inr (), f s)"

fun block :: "unit stmt list \<Rightarrow> unit stmt" where
  "block [] s = (Inr (), s)"
| "block (st # sts) s =
     (case st s of
        (Inl ex, s') \<Rightarrow> (Inl ex, s')
      | (Inr u, s') \<Rightarrow> block sts s')"

definition set_drawGizmos :: "view \<Rightarrow> bool \<Rightarrow> editor \<Rightarrow> editor" where
  "set_drawGizmos sv b s =
     s\<lparr>drawGizmos := (drawGizmos s)(sv := b), trace := trace s @ [DrawGizmosSet sv b]\<rparr>"

definition Repaint :: "view \<Rightarrow> editor \<Rightarrow> editor" where
  "Repaint sv s = s\<lparr>trace := trace s @ [Repainted sv]\<rparr>"

definition set_targetTexture :: "cam \<Rightarrow> rtex option \<Rightarrow> editor \<Rightarrow> editor" where
  "set_targetTexture c t s =
     s\<lparr>targetTexture := (targetTexture s)(c := t), trace := trace s @ [TargetTextureSet c t]\<rparr>"

definition set_active :: "rtex option \<Rightarrow> editor \<Rightarrow> editor" where
  "set_active t s = s\<lparr>active := t, trace := trace s @ [ActiveSet t]\<rparr>"

text \<open>
  \<open>RenderTexture.GetTemporary\<close> hands out the pool's texture and records it as taken;
  \<open>RenderTexture.ReleaseTemporary\<close> gives one back.
\<close>

definition GetTemporary_rt :: "env \<Rightarrow> int \<Rightarrow> int \<Rightarrow> rtex stmt" where
  "GetTemporary_rt e width height s =
     (case throws e GetTemporary of
        Some ex \<Rightarrow> (Inl ex, s)
      | None \<Rightarrow>
          (Inr (pooled e),
           s\<lparr>temporaries := pooled e # temporaries s,
             trace := trace s @ [TemporaryTaken (pooled e) width height]\<rparr>))"

definition ReleaseTemporary :: "rtex \<Rightarrow> editor \<Rightarrow> editor" where
  "ReleaseTemporary t s =
     s\<lparr>temporaries := remove1 t (temporaries s), trace := trace s @ [TemporaryReleased t]\<rparr>"

definition File_WriteAllBytes :: "env \<Rightarrow> string \<Rightarrow> nat list \<Rightarrow> unit stmt" where
  "File_WriteAllBytes e path bytes s =
     (case throws e WriteAllBytes of
        Some ex \<Rightarrow> (Inl ex, s)
      | None \<Rightarrow>
          (Inr (), s\<lparr>files := (files s)(path \<mapsto> bytes), trace := trace s @ [Called WriteAllBytes]\<rparr>))"

definition Directory_CreateDirectory :: "env \<Rightarrow> string \<Rightarrow> unit stmt" where
  "Directory_CreateDirectory e dir s =
     (case throws e CreateDirectory of
        Some ex \<Rightarrow> (Inl ex, s)
      | None \<Rightarrow>
          (Inr (), s\<lparr>directories := dir # directories s,
                     trace := trace s @ [Called CreateDirectory]\<rparr>))"

text \<open>\<open>Path.Combine\<close> on relative parts: the parts joined by the separator.\<close>

fun Path_Combine :: "string list \<Rightarrow> string" where
  "Path_Combine [] = []"
| "Path_Combine [p] = p"
| "Path_Combine (p # q # ps) = p @ ''/'' @ Path_Combine (q # ps)"

text \<open>Decimal notation of an \<open>int\<close>, for the interpolated string \<open>$"{width}x{height}"\<close>.\<close>

fun digits :: "nat \<Rightarrow> string" where
  "digits n =
     (if n < 10 then [''0123456789'' ! n]
      else digits (n div 10) @ [''0123456789'' ! (n mod 10)])"

definition ToString_int :: "int \<Rightarrow> string" where
  "ToString_int i = (if i < 0 then ''-'' @ digits (nat (- i)) else digits (nat i))"

subsection \<open>\<open>CaptureSceneViewScreenshot\<close>\<close>

text \<open>Lines 78 to 82: the last active Scene View, or else the one \<open>GetWindow\<close> gives.\<close>

definition resolveSceneView :: "env \<Rightarrow> (view option) stmt" where
  "resolveSceneView e s =
     (case lastActiveSceneView s of
        Some sv \<Rightarrow> return (Some sv) s
      | None \<Rightarrow> bind (extern e GetWindow) (\<lambda>u s'. return (sceneViewWindow s') s') s)"

text \<open>Lines 95 to 99: the screenshot directory, created when it does not exist.\<close>

definition ensureDirectory :: "env \<Rightarrow> string stmt" where
  "ensureDirectory e s =
     (let screenshotDir = Path_Combine [dataPath e, ''..'', ''Temp'', ''MCPScreenshots''] in
      if screenshotDir \<in> set (directories s) then return screenshotDir s
      else bind (Directory_CreateDirectory e screenshotDir) (\<lambda>u. return screenshotDir) s)"

text \<open>Lines 114 to 126: the \<open>switch (mode)\<close>, which has no default case.\<close>

definition applyModeSettings :: "string \<Rightarrow> bool \<Rightarrow> view \<Rightarrow> editor \<Rightarrow> editor" where
  "applyModeSettings mode withGizmos sv s =
     (if mode = ''basic'' then set_drawGizmos sv False s
      else if mode = ''labels'' \<or> mode = ''debug'' then set_drawGizmos sv True s
      else if mode = ''custom'' then set_drawGizmos sv withGizmos s
      else s)"

text \<open>Lines 146 to 160: the body of the inner \<open>try\<close>.\<close>

definition renderStatements :: "env \<Rightarrow> cam \<Rightarrow> rtex \<Rightarrow> string \<Rightarrow> unit stmt list" where
  "renderStatements e c renderTexture filePath =
     [assign (set_targetTexture c (Some renderTexture)),
      assign (set_active (Some renderTexture)),
      extern e Render,
      extern e NewTexture2D,
      extern e ReadPixels,
      extern e Apply,
      extern e EncodeToPNG,
      File_WriteAllBytes e filePath (png e),
      extern e DestroyImmediate,
      extern e DebugLog]"

text \<open>Lines 164 to 166: the inner \<open>finally\<close>.\<close>

definition restoreRenderTarget :: "cam \<Rightarrow> rtex option \<Rightarrow> rtex option \<Rightarrow> rtex \<Rightarrow> editor \<Rightarrow> editor" where
  "restoreRenderTarget c previousTarget previousActive renderTexture s =
     ReleaseTemporary renderTexture
       (set_active previousActive (set_targetTexture c previousTarget s))"

text \<open>
  Lines 140 to 167: take the temporary texture, remember the camera's target and the active
  texture, run the inner \<open>try\<close> with its \<open>finally\<close>.
\<close>

definition renderToFile :: "env \<Rightarrow> cam \<Rightarrow> int \<Rightarrow> int \<Rightarrow> string \<Rightarrow> unit stmt" where
  "renderToFile e c width height filePath =
     bind (GetTemporary_rt e width height) (\<lambda>renderTexture s1.
       (let previousTarget = targetTexture s1 c;
            previousActive = active s1
        in try_finally (block (renderStatements e c renderTexture filePath))
             (restoreRenderTarget c previousTarget previousActive renderTexture) s1))"

text \<open>
  Lines 113 to 167: the body of the outer \<open>try\<close>. Its value is \<open>Some\<close> response when
  the \<open>return\<close> of line 133 is taken and \<open>None\<close> when control falls through to line 176.
\<close>

definition configureAndRender ::
    "env \<Rightarrow> view \<Rightarrow> cam option \<Rightarrow> string \<Rightarrow> bool \<Rightarrow> int \<Rightarrow> int \<Rightarrow> string \<Rightarrow> (response option) stmt" where
  "configureAndRender e sv cm mode withGizmos width height filePath s =
     (let s1 = Repaint sv (applyModeSettings mode withGizmos sv s) in
      case cm of
        None \<Rightarrow>
          return (Some (CreateErrorResponse ''Scene View camera not available'' ''no_camera'')) s1
      | Some c \<Rightarrow> bind (renderToFile e c width height filePath) (\<lambda>u. return None) s1)"

text \<open>Lines 172 and 173: the outer \<open>finally\<close>.\<close>

definition restoreGizmos :: "view \<Rightarrow> bool \<Rightarrow> editor \<Rightarrow> editor" where
  "restoreGizmos sv currentGizmos s = Repaint sv (set_drawGizmos sv currentGizmos s)"

text \<open>Lines 110 to 174: the snapshot of the flag and the outer \<open>try\<close>/\<open>finally\<close>.\<close>

definition withModeSettings ::
    "env \<Rightarrow> view \<Rightarrow> cam option \<Rightarrow> string \<Rightarrow> bool \<Rightarrow> int \<Rightarrow> int \<Rightarrow> string \<Rightarrow> (response option) stmt" where
  "withModeSettings e sv cm mode withGizmos width height filePath s =
     (let currentGizmos = drawGizmos s sv
      in try_finally (configureAndRender e sv cm mode withGizmos width height filePath)
           (restoreGizmos sv currentGizmos) s)"

text \<open>
  Lines 176 to 214: the response, read from the editor after the \<open>finally\<close>.
  \<open>camera.orthographic\<close> on a null camera is a null dereference; the guard
  \<open>camera != null\<close> of line 199 then always holds.
\<close>

definition buildResponse ::
    "env \<Rightarrow> view \<Rightarrow> cam option \<Rightarrow> string \<Rightarrow> bool \<Rightarrow> int \<Rightarrow> int \<Rightarrow> string \<Rightarrow> string
       \<Rightarrow> response stmt" where
  "buildResponse e sv cm mode withLabels width height filePath timestamp s =
     bind (block [extern e GetActiveScene, extern e ToolsCurrent]) (\<lambda>u.
       case cm of
         None \<Rightarrow> (\<lambda>s1. (Inl ''Object reference not set to an instance of an object'', s1))
       | Some c \<Rightarrow>
           bind (block [extern e CameraOrthographic, extern e CameraTransform,
                        extern e SelectionActiveGameObject]) (\<lambda>u.
             return (Screenshot
               \<lparr>r_success = True,
                r_type = ''screenshot'',
                r_filePath = filePath,
                r_timestamp = timestamp,
                r_resolution = ToString_int width @ ''x'' @ ToString_int height,
                r_captureMethod = ''Scene View'',
                r_captureType = ''MCP '' @ mode @ '' capture'',
                r_withGizmos = drawGizmos s sv,
                r_withLabels = withLabels,
                r_mode = mode,
                r_context =
                  \<lparr>context_sceneName = activeSceneName e,
                   activeTool = currentTool e,
                   cameraProjection =
                     (if orthographic e c then ''Orthographic'' else ''Perspective''),
                   cameraPosition = Some (position e c),
                   cameraRotation = Some (eulerAngles e c),
                   selectedObject = activeGameObject e\<rparr>,
                r_message = ''Screenshot captured successfully: '' @ filePath\<rparr>))) s"

text \<open>Lines 92 to 215: the body of the \<open>try\<close> whose \<open>catch\<close> answers \<open>capture_failed\<close>.\<close>

definition captureAttempt ::
    "env \<Rightarrow> view \<Rightarrow> string \<Rightarrow> bool \<Rightarrow> bool \<Rightarrow> int \<Rightarrow> int \<Rightarrow> response stmt" where
  "captureAttempt e sv mode withGizmos withLabels width height =
     bind (ensureDirectory e) (\<lambda>screenshotDir s1.
       (let timestamp = now e;
            filename = ''MCP_SceneView_'' @ mode @ ''_'' @ timestamp @ ''.png'';
            filePath = Path_Combine [screenshotDir, filename];
            cm = camera s1 sv
        in bind (withModeSettings e sv cm mode withGizmos width height filePath) (\<lambda>returned.
             case returned of
               Some r \<Rightarrow> return r
             | None \<Rightarrow> buildResponse e sv cm mode withLabels width height filePath timestamp)
           s1))"

definition CaptureSceneViewScreenshot ::
    "env \<Rightarrow> string \<Rightarrow> bool \<Rightarrow> bool \<Rightarrow> int \<Rightarrow> int \<Rightarrow> response stmt" where
  "CaptureSceneViewScreenshot e mode withGizmos withLabels width height =
     bind (resolveSceneView e) (\<lambda>sceneView.
       case sceneView of
         None \<Rightarrow>
           return (CreateErrorResponse ''No Scene View available for screenshot capture''
                     ''no_scene_view'')
       | Some sv \<Rightarrow>
           try_catch (captureAttempt e sv mode withGizmos withLabels width height) (\<lambda>ex.
             return (CreateErrorResponse (''Failed to capture screenshot: '' @ ex)
                       ''capture_failed'')))"

subsection \<open>\<open>ExecuteAsync\<close>: the closure scheduled on the main thread\<close>

text \<open>
  The \<open>TaskCompletionSource\<close>: the task's result once it has one, and every argument
  \<open>TrySetResult\<close> was called with, in order. \<open>TrySetResult\<close> completes the task only if it
  is not yet completed.
\<close>

record tcs =
  task_result :: "response option"
  TrySetResult_calls :: "response list"

definition TrySetResult :: "response \<Rightarrow> tcs \<Rightarrow> tcs" where
  "TrySetResult r t =
     t\<lparr>task_result := (case task_result t of None \<Rightarrow> Some r | Some r0 \<Rightarrow> Some r0),
       TrySetResult_calls := TrySetResult_calls t @ [r]\<rparr>"

text \<open>A parameter extraction, which touches no editor state, as a statement.\<close>

definition lift_result :: "string + 'a \<Rightarrow> 'a stmt" where
  "lift_result v s = (v, s)"

text \<open>Lines 36 to 57: the body of the closure's \<open>try\<close> up to the call of \<open>TrySetResult\<close>.\<close>

definition captureWithParameters :: "env \<Rightarrow> JObject \<Rightarrow> response stmt" where
  "captureWithParameters e parameters =
     bind (lift_result (string_parameter parameters ''mode'' ''basic'')) (\<lambda>mode.
     bind (lift_result (bool_parameter parameters ''withGizmos'' True)) (\<lambda>withGizmos.
     bind (lift_result (bool_parameter parameters ''withLabels'' False)) (\<lambda>withLabels.
     bind (lift_result (string_parameter parameters ''resolution'' ''1080p'')) (\<lambda>resolution.
       (let (width, height) = dimensions resolution
        in CaptureSceneViewScreenshot e mode withGizmos withLabels width height)))))"

text \<open>Lines 33 to 69: the closure. The \<open>catch\<close> logs, builds the error response and sets it.\<close>

definition closure :: "env \<Rightarrow> JObject \<Rightarrow> editor \<times> tcs \<Rightarrow> editor \<times> tcs" where
  "closure e parameters st =
     (case st of (s, t) \<Rightarrow>
        (case captureWithParameters e parameters s of
           (Inr result, s') \<Rightarrow> (s', TrySetResult result t)
         | (Inl ex, s') \<Rightarrow>
             (s'\<lparr>trace := trace s' @ [Called DebugLogError]\<rparr>,
              TrySetResult
                (CreateErrorResponse (''Exception during screenshot capture: '' @ ex)
                   ''capture_exception'') t)))"

subsection \<open>Frames\<close>

text \<open>
  \<open>kept s s'\<close>: the views, their overlay flags and cameras, the cameras' targets, the active
  texture and the temporaries taken are in \<open>s'\<close> what they are in \<open>s\<close>.
  \<open>render_frame c s s'\<close>: the same but for the target of camera \<open>c\<close> and the active texture,
  and the trace of \<open>s'\<close> continues that of \<open>s\<close>.
\<close>

definition kept :: "editor \<Rightarrow> editor \<Rightarrow> bool" where
  "kept s s' \<longleftrightarrow>
     lastActiveSceneView s' = lastActiveSceneView s \<and> sceneViewWindow s' = sceneViewWindow s
     \<and> drawGizmos s' = drawGizmos s \<and> camera s' = camera s
     \<and> targetTexture s' = targetTexture s \<and> active s' = active s
     \<and> temporaries s' = temporaries s"

definition render_frame :: "cam \<Rightarrow> editor \<Rightarrow> editor \<Rightarrow> bool" where
  "render_frame c s s' \<longleftrightarrow>
     lastActiveSceneView s' = lastActiveSceneView s \<and> sceneViewWindow s' = sceneViewWindow s
     \<and> drawGizmos s' = drawGizmos s \<and> camera s' = camera s
     \<and> temporaries s' = temporaries s \<and> directories s' = directories s
     \<and> (targetTexture s')(c := None) = (targetTexture s)(c := None)
     \<and> take (length (trace s)) (trace s') = trace s"

section \<open>Example inputs\<close>

text \<open>
  Concrete environments, editors, parameters and clients on which the theorems below are
  instantiated. \<open>quiet\<close> is an environment in which no call raises; \<open>raising k\<close> is the same
  with call \<open>k\<close> raising. \<open>editor0\<close> has one Scene View, number 0, with its gizmos drawn and
  camera 1. \<open>text_token s\<close> is a JSON string token (only its conversion to a string is ever
  taken in the examples); \<open>object_token\<close> is a JSON object, which converts to neither a
  string nor a boolean. \<open>idle_client\<close> is a client that has sent nothing yet.
  \<open>window_no_camera_editor\<close> has no last active Scene View: the view, without a camera, is
  the one \<open>GetWindow\<close> gives.
\<close>

definition quiet :: env where
  "quiet = \<lparr>throws = (\<lambda>c. None), dataPath = ''/proj/Assets'', now = ''2025-01-01_00-00-00-000'',
         pooled = 7, png = [137, 80], activeSceneName = ''Main'', currentTool = ''Move'',
         orthographic = (\<lambda>c. False), position = (\<lambda>c. ''(0, 1, -10)''),
         eulerAngles = (\<lambda>c. ''(0, 0, 0)''), activeGameObject = None\<rparr>"

definition raising :: "call \<Rightarrow> env" where
  "raising k = quiet\<lparr>throws := (\<lambda>c. if c = k then Some ''boom'' else None)\<rparr>"

definition editor0 :: editor where
  "editor0 = \<lparr>lastActiveSceneView = Some 0, sceneViewWindow = Some 0, drawGizmos = (\<lambda>v. True),
         camera = (\<lambda>v. Some 1), targetTexture = (\<lambda>c. None), active = None, temporaries = [],
         directories = [], files = Map.empty, trace = []\<rparr>"

definition uncompleted :: tcs where
  "uncompleted = \<lparr>task_result = None, TrySetResult_calls = []\<rparr>"

definition text_token :: "string \<Rightarrow> JToken" where
  "text_token s = JToken (Inr (Some s)) (Inl ''String was not recognized as a valid Boolean.'')"

definition object_token :: JToken where
  "object_token = JToken (Inl ''Can not convert Object to String.'')
                         (Inl ''Can not convert Object to Boolean.'')"

definition no_view_editor :: editor where
  "no_view_editor = editor0\<lparr>lastActiveSceneView := None, sceneViewWindow := None\<rparr>"

definition no_camera_editor :: editor where
  "no_camera_editor = editor0\<lparr>camera := (\<lambda>v. None)\<rparr>"

definition window_no_camera_editor :: editor where
  "window_no_camera_editor = editor0\<lparr>lastActiveSceneView := None, camera := (\<lambda>v. None)\<rparr>"

definition only_scenePath :: scene_params where
  "only_scenePath = \<lparr>scenePath = Some ''Assets/Scenes/A.unity'', sceneName = None,
     folderPath = None, addToBuildSettings = None, makeActive = None, additive = None\<rparr>"

definition only_sceneName :: scene_params where
  "only_sceneName = \<lparr>scenePath = None, sceneName = Some ''A'',
     folderPath = None, addToBuildSettings = None, makeActive = None, additive = None\<rparr>"

definition no_scene :: scene_params where
  "no_scene = \<lparr>scenePath = None, sceneName = None,
     folderPath = None, addToBuildSettings = None, makeActive = None, additive = None\<rparr>"

definition idle_client :: McpUnity where
  "idle_client = \<lparr>sendRequest_calls = [],
     settles = (\<lambda>r. Inr \<lparr>success = True, message = None, type = Some ''text'',
                           response_scenePath = None, response_additive = None\<rparr>)\<rparr>"

section \<open>Properties of the statements\<close>

subsection \<open>What an invocation keeps\<close>

text \<open>
  A relation that is reflexive and transitive and holds across each statement of a block
  holds across the block. With it, \<open>kept\<close> is carried through \<open>bind\<close>, \<open>try_catch\<close> and the
  blocks of engine calls, and \<open>render_frame\<close> through the body of the inner \<open>try\<close>; the two
  \<open>finally\<close> blocks then close the gap: each writes back exactly what the body may have
  changed.
\<close>

lemma block_rel:
  assumes refl: "\<And>s. R s s"
    and trans: "\<And>a b c. R a b \<Longrightarrow> R b c \<Longrightarrow> R a c"
    and step: "\<And>st s. st \<in> set sts \<Longrightarrow> R s (snd (st s))"
  shows "R s (snd (block sts s))"
  using step
proof (induction sts arbitrary: s)
  case Nil
  show ?case by (simp add: refl)
next
  case (Cons st sts)
  have head: "R s (snd (st s))" by (rule Cons.prems) simp
  have tail: "R (snd (st s)) (snd (block sts (snd (st s))))"
    by (rule Cons.IH) (simp add: Cons.prems)
  show ?case
  proof (cases "st s")
    case (Pair r s')
    then show ?thesis
      using head tail by (cases r) (auto intro: trans)
  qed
qed

lemma kept_refl: "kept s s"
  by (simp add: kept_def)

lemma kept_trans: "kept a b \<Longrightarrow> kept b c \<Longrightarrow> kept a c"
  by (simp add: kept_def)

lemma kept_return: "kept s (snd (return x s))"
  by (simp add: return_def kept_def)

lemma kept_bind:
  assumes "kept s (snd (m s))" and "\<And>x s'. kept s' (snd (f x s'))"
  shows "kept s (snd (bind m f s))"
proof (cases "m s")
  case (Pair r s')
  show ?thesis
  proof (cases r)
    case (Inl ex)
    with Pair assms(1) show ?thesis by (simp add: bind_def)
  next
    case (Inr x)
    with Pair have "snd (bind m f s) = snd (f x s')" by (simp add: bind_def)
    moreover have "kept s s'" using assms(1) Pair by simp
    ultimately show ?thesis using assms(2)[of s' x] by (auto intro: kept_trans)
  qed
qed

lemma kept_try_catch:
  assumes "kept s (snd (body s))" and "\<And>ex s'. kept s' (snd (handler ex s'))"
  shows "kept s (snd (try_catch body handler s))"
proof (cases "body s")
  case (Pair r s')
  show ?thesis
  proof (cases r)
    case (Inr x)
    with Pair assms(1) show ?thesis by (simp add: try_catch_def)
  next
    case (Inl ex)
    with Pair have "snd (try_catch body handler s) = snd (handler ex s')"
      by (simp add: try_catch_def)
    moreover have "kept s s'" using assms(1) Pair by simp
    ultimately show ?thesis using assms(2)[of s' ex] by (auto intro: kept_trans)
  qed
qed

lemma kept_extern: "kept s (snd (extern e k s))"
  by (simp add: kept_def extern_def split: option.splits)

lemma kept_externs:
  "(\<And>st. st \<in> set sts \<Longrightarrow> \<exists>k. st = extern e k) \<Longrightarrow> kept s (snd (block sts s))"
  by (rule block_rel[where R = kept]) (auto intro: kept_refl kept_trans kept_extern)

lemma render_frame_refl: "render_frame c s s"
  by (simp add: render_frame_def)

lemma render_frame_trans: "render_frame c s1 s2 \<Longrightarrow> render_frame c s2 s3 \<Longrightarrow> render_frame c s1 s3"
  unfolding render_frame_def
  by (metis append_eq_conv_conj append_take_drop_id append.assoc)

lemma render_frame_statements:
  "st \<in> set (renderStatements e c t fp) \<Longrightarrow> render_frame c s (snd (st s))"
  by (auto simp: renderStatements_def render_frame_def extern_def assign_def
        set_targetTexture_def set_active_def File_WriteAllBytes_def split: option.splits)

lemma render_frame_block:
  "render_frame c s (snd (block (renderStatements e c t fp) s))"
  by (rule block_rel[where R = "render_frame c"])
     (auto intro: render_frame_refl render_frame_trans render_frame_statements)

lemma fun_upd_restore:
  assumes "f2(c := None) = f1(c := None)"
  shows "f2(c := f1 c) = (f1 :: cam \<Rightarrow> rtex option)"
proof
  fix x
  show "(f2(c := f1 c)) x = f1 x"
  proof (cases "x = c")
    case True
    then show ?thesis by simp
  next
    case False
    from assms have "(f2(c := None)) x = (f1(c := None)) x" by simp
    with False show ?thesis by simp
  qed
qed

lemma snd_renderToFile:
  "throws e GetTemporary = None \<Longrightarrow>
   snd (renderToFile e c w h fp s) =
     restoreRenderTarget c (targetTexture s c) (active s) (pooled e)
       (snd (block (renderStatements e c (pooled e) fp)
          (s\<lparr>temporaries := pooled e # temporaries s,
             trace := trace s @ [TemporaryTaken (pooled e) w h]\<rparr>)))"
  by (simp add: renderToFile_def bind_def GetTemporary_rt_def try_finally_def
        split: prod.splits)

lemma kept_renderToFile: "kept s (snd (renderToFile e c w h fp s))"
proof (cases "throws e GetTemporary")
  case (Some ex)
  then show ?thesis
    by (simp add: renderToFile_def bind_def GetTemporary_rt_def kept_def)
next
  case None
  define s1 where
    "s1 = s\<lparr>temporaries := pooled e # temporaries s,
            trace := trace s @ [TemporaryTaken (pooled e) w h]\<rparr>"
  define s2 where "s2 = snd (block (renderStatements e c (pooled e) fp) s1)"
  have fr: "render_frame c s1 s2"
    unfolding s2_def by (rule render_frame_block)
  have tt: "(targetTexture s2)(c := targetTexture s1 c) = targetTexture s1"
    using fr by (intro fun_upd_restore) (simp add: render_frame_def)
  have final: "snd (renderToFile e c w h fp s)
      = restoreRenderTarget c (targetTexture s c) (active s) (pooled e) s2"
    using None by (simp add: snd_renderToFile s1_def s2_def)
  show ?thesis
    unfolding final using fr tt
    by (simp add: kept_def render_frame_def restoreRenderTarget_def ReleaseTemporary_def
          set_active_def set_targetTexture_def s1_def)
qed

lemma kept_withModeSettings:
  "kept s (snd (withModeSettings e sv cm mode g w h fp s))"
proof -
  define s1 where "s1 = Repaint sv (applyModeSettings mode g sv s)"
  define s2 where "s2 = snd (configureAndRender e sv cm mode g w h fp s)"
  have a: "drawGizmos s1 = (drawGizmos s)(sv := drawGizmos s1 sv)
           \<and> lastActiveSceneView s1 = lastActiveSceneView s \<and> sceneViewWindow s1 = sceneViewWindow s
           \<and> camera s1 = camera s \<and> targetTexture s1 = targetTexture s \<and> active s1 = active s
           \<and> temporaries s1 = temporaries s"
    by (simp add: s1_def Repaint_def applyModeSettings_def set_drawGizmos_def)
  have b: "kept s1 s2"
  proof (cases cm)
    case None
    then show ?thesis
      by (simp add: s2_def configureAndRender_def Let_def s1_def[symmetric] kept_return)
  next
    case (Some c)
    have "kept s1 (snd (bind (renderToFile e c w h fp) (\<lambda>u. return None) s1))"
      by (rule kept_bind) (rule kept_renderToFile kept_return)+
    with Some show ?thesis
      by (simp add: s2_def configureAndRender_def Let_def s1_def[symmetric])
  qed
  have c: "(drawGizmos s2)(sv := drawGizmos s sv) = drawGizmos s"
  proof -
    have "drawGizmos s2 = (drawGizmos s)(sv := drawGizmos s1 sv)"
      using a b by (simp add: kept_def)
    then show ?thesis by simp
  qed
  have final: "snd (withModeSettings e sv cm mode g w h fp s)
                 = restoreGizmos sv (drawGizmos s sv) s2"
    by (simp add: withModeSettings_def try_finally_def s2_def split: prod.splits)
  show ?thesis
    unfolding final using a b c
    by (simp add: kept_def restoreGizmos_def Repaint_def set_drawGizmos_def)
qed

lemma kept_buildResponse:
  "kept s (snd (buildResponse e sv cm mode l w h fp ts s))"
  unfolding buildResponse_def
proof (rule kept_bind)
  show "kept s (snd (block [extern e GetActiveScene, extern e ToolsCurrent] s))"
    by (rule kept_externs) auto
next
  fix x :: unit and s'
  show "kept s' (snd ((case cm of
          None \<Rightarrow> (\<lambda>s1. (Inl ''Object reference not set to an instance of an object'', s1))
        | Some c \<Rightarrow>
            bind (block [extern e CameraOrthographic, extern e CameraTransform,
                         extern e SelectionActiveGameObject]) (\<lambda>u.
              return (Screenshot
                \<lparr>r_success = True,
                r_type = ''screenshot'',
                r_filePath = fp,
                r_timestamp = ts,
                r_resolution = ToString_int w @ ''x'' @ ToString_int h,
                r_captureMethod = ''Scene View'',
                r_captureType = ''MCP '' @ mode @ '' capture'',
                r_withGizmos = drawGizmos s sv,
                r_withLabels = l,
                r_mode = mode,
                r_context =
                  \<lparr>context_sceneName = activeSceneName e,
                   activeTool = currentTool e,
                   cameraProjection =
                     (if orthographic e c then ''Orthographic'' else ''Perspective''),
                   cameraPosition = Some (position e c),
                   cameraRotation = Some (eulerAngles e c),
                   selectedObject = activeGameObject e\<rparr>,
                r_message = ''Screenshot captured successfully: '' @ fp\<rparr>))) s'))"
  proof (cases cm)
    case None
    then show ?thesis by (simp add: kept_refl)
  next
    case (Some c)
    show ?thesis unfolding Some option.case
      by (rule kept_bind, rule kept_externs, auto intro: kept_return)
  qed
qed

lemma kept_ensureDirectory: "kept s (snd (ensureDirectory e s))"
  by (simp add: ensureDirectory_def Let_def return_def bind_def Directory_CreateDirectory_def
        kept_def split: option.splits)

lemma kept_captureAttempt:
  "kept s (snd (captureAttempt e sv mode g l w h s))"
  unfolding captureAttempt_def
proof (rule kept_bind)
  show "kept s (snd (ensureDirectory e s))" by (rule kept_ensureDirectory)
next
  fix dir s1
  have inner: "kept s1 (snd (bind (withModeSettings e sv cm mode g w h fp)
                   (\<lambda>returned. case returned of Some r \<Rightarrow> return r
                      | None \<Rightarrow> buildResponse e sv cm mode l w h fp ts) s1))" for cm fp ts
  proof (rule kept_bind)
    show "kept s1 (snd (withModeSettings e sv cm mode g w h fp s1))"
      by (rule kept_withModeSettings)
  next
    fix x s'
    show "kept s' (snd ((case x of Some r \<Rightarrow> return r
              | None \<Rightarrow> buildResponse e sv cm mode l w h fp ts) s'))"
      by (cases x) (simp_all add: kept_return kept_buildResponse)
  qed
  show "kept s1 (snd (let timestamp = now e;
            filename = ''MCP_SceneView_'' @ mode @ ''_'' @ timestamp @ ''.png'';
            filePath = Path_Combine [dir, filename];
            cm = camera s1 sv
        in bind (withModeSettings e sv cm mode g w h filePath) (\<lambda>returned.
             case returned of
               Some r \<Rightarrow> return r
             | None \<Rightarrow> buildResponse e sv cm mode l w h filePath timestamp)
           s1))"
    unfolding Let_def by (rule inner)
qed

lemma kept_resolveSceneView: "kept s (snd (resolveSceneView e s))"
  by (simp add: resolveSceneView_def kept_def extern_def bind_def return_def
        split: option.splits)

lemma kept_CaptureSceneViewScreenshot:
  "kept s (snd (CaptureSceneViewScreenshot e mode g l w h s))"
  unfolding CaptureSceneViewScreenshot_def
proof (rule kept_bind)
  show "kept s (snd (resolveSceneView e s))" by (rule kept_resolveSceneView)
next
  fix x s'
  show "kept s' (snd ((case x of
         None \<Rightarrow>
           return (CreateErrorResponse ''No Scene View available for screenshot capture''
                     ''no_scene_view'')
       | Some sv \<Rightarrow>
           try_catch (captureAttempt e sv mode g l w h) (\<lambda>ex.
             return (CreateErrorResponse (''Failed to capture screenshot: '' @ ex)
                       ''capture_failed''))) s'))"
  proof (cases x)
    case None
    then show ?thesis by (simp add: kept_return)
  next
    case (Some sv)
    show ?thesis unfolding Some option.case
      by (rule kept_try_catch) (rule kept_captureAttempt kept_return)+
  qed
qed

lemma kept_captureWithParameters:
  "kept s (snd (captureWithParameters e p s))"
  unfolding captureWithParameters_def
  by (intro kept_bind)
     (auto simp: lift_result_def kept_refl kept_CaptureSceneViewScreenshot split: prod.splits)

lemma kept_closure: "kept s (fst (closure e p (s, t)))"
  using kept_captureWithParameters[of s e p]
  by (auto simp: closure_def kept_def split: prod.splits sum.splits)

subsection \<open>The two early failures, and the run in which nothing raises\<close>

lemmas capture_defs =
  CaptureSceneViewScreenshot_def captureAttempt_def withModeSettings_def configureAndRender_def
  renderToFile_def renderStatements_def restoreRenderTarget_def restoreGizmos_def
  buildResponse_def ensureDirectory_def resolveSceneView_def applyModeSettings_def
  bind_def return_def try_finally_def try_catch_def extern_def assign_def
  set_drawGizmos_def Repaint_def set_targetTexture_def set_active_def GetTemporary_rt_def
  ReleaseTemporary_def File_WriteAllBytes_def Directory_CreateDirectory_def
  CreateErrorResponse_def

lemma no_view:
  "lastActiveSceneView s = None \<Longrightarrow> throws e GetWindow = None \<Longrightarrow> sceneViewWindow s = None \<Longrightarrow>
     CaptureSceneViewScreenshot e mode g l w h s
       = (Inr (ErrorResponse ''No Scene View available for screenshot capture''
                 ''no_scene_view''), s\<lparr>trace := trace s @ [Called GetWindow]\<rparr>)"
  by (simp add: capture_defs)

lemma no_camera:
  "lastActiveSceneView s = Some sv \<Longrightarrow> camera s sv = None \<Longrightarrow> throws e CreateDirectory = None \<Longrightarrow>
     fst (CaptureSceneViewScreenshot e mode g l w h s)
       = Inr (ErrorResponse ''Scene View camera not available'' ''no_camera'')
     \<and> files (snd (CaptureSceneViewScreenshot e mode g l w h s)) = files s
     \<and> (\<exists>evs. trace (snd (CaptureSceneViewScreenshot e mode g l w h s))
            = trace s @ evs @ [Repainted sv, DrawGizmosSet sv (drawGizmos s sv), Repainted sv]
          \<and> set evs \<subseteq> {Called CreateDirectory} \<union> range (DrawGizmosSet sv))"
  by (simp add: capture_defs Let_def)

lemma quiet_success:
  "\<forall>c. throws e c = None \<Longrightarrow> lastActiveSceneView s = Some sv \<Longrightarrow> camera s sv = Some c \<Longrightarrow>
     \<exists>r. fst (CaptureSceneViewScreenshot e mode g l w h s) = Inr (Screenshot r)"
  by (simp add: capture_defs Let_def)

lemma captureAttempt_no_camera:
  assumes c: "camera s sv = None"
    and d: "Path_Combine [dataPath e, ''..'', ''Temp'', ''MCPScreenshots''] \<in> set (directories s)
            \<or> throws e CreateDirectory = None"
  shows "fst (captureAttempt e sv mode g l w h s)
       = Inr (ErrorResponse ''Scene View camera not available'' ''no_camera'')
     \<and> files (snd (captureAttempt e sv mode g l w h s)) = files s
     \<and> (\<exists>evs. trace (snd (captureAttempt e sv mode g l w h s))
            = trace s @ evs @ [Repainted sv, DrawGizmosSet sv (drawGizmos s sv), Repainted sv]
          \<and> set evs \<subseteq> {Called CreateDirectory} \<union> range (DrawGizmosSet sv))"
  using c d
  by (auto simp: captureAttempt_def withModeSettings_def configureAndRender_def
        restoreGizmos_def ensureDirectory_def applyModeSettings_def bind_def return_def
        try_finally_def set_drawGizmos_def Repaint_def Directory_CreateDirectory_def
        CreateErrorResponse_def Let_def)

lemma resolveSceneView_Some:
  assumes "fst (resolveSceneView e s) = Inr (Some sv)"
  shows "resolveSceneView e s = (Inr (Some sv), s)
         \<or> resolveSceneView e s = (Inr (Some sv), s\<lparr>trace := trace s @ [Called GetWindow]\<rparr>)"
  using assms
  by (auto simp: resolveSceneView_def return_def bind_def extern_def split: option.splits)

lemma no_camera_resolved:
  assumes v: "fst (resolveSceneView e s) = Inr (Some sv)"
    and c: "camera s sv = None"
    and d: "Path_Combine [dataPath e, ''..'', ''Temp'', ''MCPScreenshots''] \<in> set (directories s)
            \<or> throws e CreateDirectory = None"
  shows "fst (CaptureSceneViewScreenshot e mode g l w h s)
       = Inr (ErrorResponse ''Scene View camera not available'' ''no_camera'')
     \<and> files (snd (CaptureSceneViewScreenshot e mode g l w h s)) = files s
     \<and> (\<exists>evs. trace (snd (CaptureSceneViewScreenshot e mode g l w h s))
            = trace s @ evs @ [Repainted sv, DrawGizmosSet sv (drawGizmos s sv), Repainted sv]
          \<and> set evs \<subseteq> {Called GetWindow, Called CreateDirectory} \<union> range (DrawGizmosSet sv))"
proof -
  obtain s0 pre where r: "resolveSceneView e s = (Inr (Some sv), s0)"
    and s0: "camera s0 = camera s" "directories s0 = directories s" "files s0 = files s"
      "drawGizmos s0 = drawGizmos s" "trace s0 = trace s @ pre"
    and pre: "set pre \<subseteq> {Called GetWindow}"
  proof -
    from resolveSceneView_Some[OF v] show ?thesis
    proof
      assume "resolveSceneView e s = (Inr (Some sv), s)"
      then show ?thesis by (intro that[of s "[]"]) simp_all
    next
      assume "resolveSceneView e s = (Inr (Some sv), s\<lparr>trace := trace s @ [Called GetWindow]\<rparr>)"
      then show ?thesis
        by (intro that[of "s\<lparr>trace := trace s @ [Called GetWindow]\<rparr>" "[Called GetWindow]"])
           simp_all
    qed
  qed
  have c0: "camera s0 sv = None" using c s0 by simp
  have d0: "Path_Combine [dataPath e, ''..'', ''Temp'', ''MCPScreenshots''] \<in> set (directories s0)
            \<or> throws e CreateDirectory = None"
    using d s0 by simp
  note a = captureAttempt_no_camera[OF c0 d0, of mode g l w h]
  from a obtain evs where
    f: "fst (captureAttempt e sv mode g l w h s0)
          = Inr (ErrorResponse ''Scene View camera not available'' ''no_camera'')"
    and fl: "files (snd (captureAttempt e sv mode g l w h s0)) = files s0"
    and t: "trace (snd (captureAttempt e sv mode g l w h s0))
              = trace s0 @ evs @ [Repainted sv, DrawGizmosSet sv (drawGizmos s0 sv), Repainted sv]"
    and e: "set evs \<subseteq> {Called CreateDirectory} \<union> range (DrawGizmosSet sv)"
    by blast
  have eq: "CaptureSceneViewScreenshot e mode g l w h s = captureAttempt e sv mode g l w h s0"
    using r f
    by (cases "captureAttempt e sv mode g l w h s0")
       (simp add: CaptureSceneViewScreenshot_def bind_def try_catch_def)
  have "trace (snd (CaptureSceneViewScreenshot e mode g l w h s))
          = trace s @ (pre @ evs) @ [Repainted sv, DrawGizmosSet sv (drawGizmos s sv), Repainted sv]"
    using t s0 by (simp add: eq)
  moreover have "set (pre @ evs)
      \<subseteq> {Called GetWindow, Called CreateDirectory} \<union> range (DrawGizmosSet sv)"
    using pre e by auto
  ultimately have "\<exists>evs. trace (snd (CaptureSceneViewScreenshot e mode g l w h s))
            = trace s @ evs @ [Repainted sv, DrawGizmosSet sv (drawGizmos s sv), Repainted sv]
          \<and> set evs \<subseteq> {Called GetWindow, Called CreateDirectory} \<union> range (DrawGizmosSet sv)"
    by blast
  with f fl s0 show ?thesis by (simp add: eq)
qed

subsection \<open>The trace of the two guarded sections\<close>

lemma trace_block_render:
  "\<exists>evs. trace (snd (block (renderStatements e c t fp) s)) = trace s @ evs"
proof -
  have "render_frame c s (snd (block (renderStatements e c t fp) s))"
    by (rule render_frame_block)
  then have "take (length (trace s)) (trace (snd (block (renderStatements e c t fp) s))) = trace s"
    by (simp add: render_frame_def)
  then show ?thesis by (metis append_take_drop_id)
qed

lemma trace_renderToFile:
  assumes "throws e GetTemporary = None"
  shows "\<exists>evs. trace (snd (renderToFile e c w h fp s))
           = trace s @ TemporaryTaken (pooled e) w h # evs
               @ [TargetTextureSet c (targetTexture s c), ActiveSet (active s),
                  TemporaryReleased (pooled e)]"
proof -
  define s1 where
    "s1 = s\<lparr>temporaries := pooled e # temporaries s,
            trace := trace s @ [TemporaryTaken (pooled e) w h]\<rparr>"
  obtain evs where evs: "trace (snd (block (renderStatements e c (pooled e) fp) s1)) = trace s1 @ evs"
    using trace_block_render by blast
  have "trace (snd (renderToFile e c w h fp s))
          = trace (snd (block (renderStatements e c (pooled e) fp) s1))
              @ [TargetTextureSet c (targetTexture s c), ActiveSet (active s),
                 TemporaryReleased (pooled e)]"
    using assms
    by (simp add: snd_renderToFile s1_def restoreRenderTarget_def ReleaseTemporary_def
          set_active_def set_targetTexture_def)
  with evs show ?thesis unfolding s1_def by simp
qed

lemma trace_renderToFile_grows:
  "\<exists>evs. trace (snd (renderToFile e c w h fp s)) = trace s @ evs"
proof (cases "throws e GetTemporary")
  case None
  from trace_renderToFile[OF None, of c w h fp s] show ?thesis by auto
next
  case (Some ex)
  then show ?thesis by (simp add: renderToFile_def bind_def GetTemporary_rt_def)
qed

lemma trace_configureAndRender:
  "\<exists>evs. trace (snd (configureAndRender e sv cm mode g w h fp s)) = trace s @ evs"
proof -
  define s1 where "s1 = Repaint sv (applyModeSettings mode g sv s)"
  have a: "\<exists>evs. trace s1 = trace s @ evs"
    by (simp add: s1_def Repaint_def applyModeSettings_def set_drawGizmos_def)
  have b: "\<exists>evs. trace (snd (configureAndRender e sv cm mode g w h fp s)) = trace s1 @ evs"
  proof (cases cm)
    case None
    then show ?thesis
      by (simp add: configureAndRender_def Let_def s1_def[symmetric] return_def)
  next
    case (Some c)
    obtain evs where "trace (snd (renderToFile e c w h fp s1)) = trace s1 @ evs"
      using trace_renderToFile_grows by blast
    then have "trace (snd (bind (renderToFile e c w h fp) (\<lambda>u. return None) s1)) = trace s1 @ evs"
      by (cases "renderToFile e c w h fp s1")
         (auto simp: bind_def return_def split: sum.splits)
    with Some show ?thesis
      by (auto simp: configureAndRender_def Let_def s1_def[symmetric])
  qed
  from a b show ?thesis by (metis append.assoc)
qed

lemma trace_withModeSettings:
  "\<exists>evs. trace (snd (withModeSettings e sv cm mode g w h fp s))
          = trace s @ evs @ [DrawGizmosSet sv (drawGizmos s sv), Repainted sv]"
proof -
  obtain evs where "trace (snd (configureAndRender e sv cm mode g w h fp s)) = trace s @ evs"
    using trace_configureAndRender by blast
  then show ?thesis
    by (cases "configureAndRender e sv cm mode g w h fp s")
       (simp add: withModeSettings_def Let_def try_finally_def restoreGizmos_def Repaint_def
          set_drawGizmos_def)
qed

subsection \<open>What a returned response can be\<close>

lemma bind_Inr:
  "fst (bind m f s) = Inr y \<longleftrightarrow> (\<exists>x s'. m s = (Inr x, s') \<and> fst (f x s') = Inr y)"
  by (auto simp: bind_def split: prod.splits sum.splits)

lemma buildResponse_Inr:
  assumes "fst (buildResponse e sv cm mode l w h fp ts s) = Inr r"
  shows "\<exists>x. r = Screenshot x \<and> r_withGizmos x = drawGizmos s sv \<and> r_mode x = mode
           \<and> r_captureType x = ''MCP '' @ mode @ '' capture'' \<and> r_withLabels x = l
           \<and> r_resolution x = ToString_int w @ ''x'' @ ToString_int h"
proof (cases cm)
  case None
  with assms show ?thesis
    by (simp add: buildResponse_def bind_def split: prod.splits sum.splits)
next
  case (Some c)
  from assms obtain u1 s1 u2 s2 where
    "fst (return (Screenshot
               \<lparr>r_success = True,
                r_type = ''screenshot'',
                r_filePath = fp,
                r_timestamp = ts,
                r_resolution = ToString_int w @ ''x'' @ ToString_int h,
                r_captureMethod = ''Scene View'',
                r_captureType = ''MCP '' @ mode @ '' capture'',
                r_withGizmos = drawGizmos s sv,
                r_withLabels = l,
                r_mode = mode,
                r_context =
                  \<lparr>context_sceneName = activeSceneName e,
                   activeTool = currentTool e,
                   cameraProjection =
                     (if orthographic e c then ''Orthographic'' else ''Perspective''),
                   cameraPosition = Some (position e c),
                   cameraRotation = Some (eulerAngles e c),
                   selectedObject = activeGameObject e\<rparr>,
                r_message = ''Screenshot captured successfully: '' @ fp\<rparr>) s2) = Inr r"
    unfolding buildResponse_def Some option.case bind_Inr by blast
  then show ?thesis
    unfolding return_def fst_conv sum.inject by (intro exI[of _ "case r of Screenshot x \<Rightarrow> x"]) auto
qed

lemma withModeSettings_returned:
  assumes "fst (withModeSettings e sv cm mode g w h fp s) = Inr (Some r)"
  shows "r = ErrorResponse ''Scene View camera not available'' ''no_camera''"
  using assms
  by (cases cm)
     (auto simp: withModeSettings_def try_finally_def configureAndRender_def Let_def
        return_def bind_def CreateErrorResponse_def split: prod.splits sum.splits)

lemma returned_or_built:
  assumes "fst (bind (withModeSettings e sv cm mode g w h fp)
                 (\<lambda>returned. case returned of Some r \<Rightarrow> return r
                    | None \<Rightarrow> buildResponse e sv cm mode l w h fp ts) s1) = Inr r"
  shows "r = ErrorResponse ''Scene View camera not available'' ''no_camera''
         \<or> (\<exists>x. r = Screenshot x \<and> r_withGizmos x = drawGizmos s1 sv \<and> r_mode x = mode
               \<and> r_captureType x = ''MCP '' @ mode @ '' capture'' \<and> r_withLabels x = l
               \<and> r_resolution x = ToString_int w @ ''x'' @ ToString_int h)"
proof -
  from assms obtain returned s2 where
    m: "withModeSettings e sv cm mode g w h fp s1 = (Inr returned, s2)" and
    f: "fst ((case returned of Some r \<Rightarrow> return r
                | None \<Rightarrow> buildResponse e sv cm mode l w h fp ts) s2) = Inr r"
    unfolding bind_Inr by blast
  have "kept s1 (snd (withModeSettings e sv cm mode g w h fp s1))"
    by (rule kept_withModeSettings)
  then have g: "drawGizmos s2 sv = drawGizmos s1 sv"
    by (simp add: m kept_def)
  show ?thesis
  proof (cases returned)
    case (Some r')
    with f have "r = r'" by (simp add: return_def)
    moreover have "fst (withModeSettings e sv cm mode g w h fp s1) = Inr (Some r')"
      by (simp add: m Some)
    then have "r' = ErrorResponse ''Scene View camera not available'' ''no_camera''"
      by (rule withModeSettings_returned)
    ultimately show ?thesis by simp
  next
    case None
    with f have "fst (buildResponse e sv cm mode l w h fp ts s2) = Inr r" by simp
    from buildResponse_Inr[OF this] g show ?thesis by auto
  qed
qed

lemma captureAttempt_Inr:
  assumes "fst (captureAttempt e sv mode g l w h s) = Inr r"
  shows "r = ErrorResponse ''Scene View camera not available'' ''no_camera''
         \<or> (\<exists>x. r = Screenshot x \<and> r_withGizmos x = drawGizmos s sv \<and> r_mode x = mode
               \<and> r_captureType x = ''MCP '' @ mode @ '' capture'' \<and> r_withLabels x = l
               \<and> r_resolution x = ToString_int w @ ''x'' @ ToString_int h)"
proof -
  from assms obtain dir s1 cm fp ts where
    d: "ensureDirectory e s = (Inr dir, s1)" and
    rest: "fst (bind (withModeSettings e sv cm mode g w h fp)
                 (\<lambda>returned. case returned of Some r \<Rightarrow> return r
                    | None \<Rightarrow> buildResponse e sv cm mode l w h fp ts) s1) = Inr r"
    unfolding captureAttempt_def bind_Inr[of "ensureDirectory e"] Let_def by blast
  have "kept s (snd (ensureDirectory e s))" by (rule kept_ensureDirectory)
  then have "drawGizmos s1 sv = drawGizmos s sv" by (simp add: d kept_def)
  with returned_or_built[OF rest] show ?thesis by simp
qed

lemma CaptureSceneViewScreenshot_Inr:
  assumes "fst (CaptureSceneViewScreenshot e mode g l w h s) = Inr r"
  shows "r = ErrorResponse ''No Scene View available for screenshot capture'' ''no_scene_view''
         \<or> r = ErrorResponse ''Scene View camera not available'' ''no_camera''
         \<or> (\<exists>ex. r = ErrorResponse (''Failed to capture screenshot: '' @ ex) ''capture_failed'')
         \<or> (\<exists>x sv. r = Screenshot x \<and> fst (resolveSceneView e s) = Inr (Some sv)
               \<and> r_withGizmos x = drawGizmos s sv \<and> r_mode x = mode
               \<and> r_captureType x = ''MCP '' @ mode @ '' capture'' \<and> r_withLabels x = l
               \<and> r_resolution x = ToString_int w @ ''x'' @ ToString_int h)"
proof -
  from assms obtain sceneView s0 where
    v: "resolveSceneView e s = (Inr sceneView, s0)" and
    rest: "fst ((case sceneView of
         None \<Rightarrow>
           return (CreateErrorResponse ''No Scene View available for screenshot capture''
                     ''no_scene_view'')
       | Some sv \<Rightarrow>
           try_catch (captureAttempt e sv mode g l w h) (\<lambda>ex.
             return (CreateErrorResponse (''Failed to capture screenshot: '' @ ex)
                       ''capture_failed''))) s0) = Inr r"
    unfolding CaptureSceneViewScreenshot_def bind_Inr by blast
  have k: "kept s s0" using kept_resolveSceneView[of s e] v by simp
  show ?thesis
  proof (cases sceneView)
    case None
    with rest show ?thesis by (simp add: return_def CreateErrorResponse_def)
  next
    case (Some sv)
    show ?thesis
    proof (cases "captureAttempt e sv mode g l w h s0")
      case (Pair r0 s1)
      show ?thesis
      proof (cases r0)
        case (Inl ex)
        with rest Some Pair
        have "r = ErrorResponse (''Failed to capture screenshot: '' @ ex) ''capture_failed''"
          by (simp add: try_catch_def return_def CreateErrorResponse_def)
        then show ?thesis by blast
      next
        case (Inr r')
        with rest Some Pair have "r = r'" by (simp add: try_catch_def)
        moreover have "fst (captureAttempt e sv mode g l w h s0) = Inr r'"
          using Pair Inr by simp
        moreover have "drawGizmos s0 sv = drawGizmos s sv" using k by (simp add: kept_def)
        moreover have "fst (resolveSceneView e s) = Inr (Some sv)" using v Some by simp
        ultimately show ?thesis using captureAttempt_Inr[of e sv mode g l w h s0 r'] by blast
      qed
    qed
  qed
qed

lemma captureWithParameters_Inr:
  assumes "fst (captureWithParameters e p s) = Inr r"
  shows "\<exists>mode g l res.
           string_parameter p ''mode'' ''basic'' = Inr mode
         \<and> bool_parameter p ''withGizmos'' True = Inr g
         \<and> bool_parameter p ''withLabels'' False = Inr l
         \<and> string_parameter p ''resolution'' ''1080p'' = Inr res
         \<and> fst (CaptureSceneViewScreenshot e mode g l (fst (dimensions res))
                  (snd (dimensions res)) s) = Inr r"
  using assms
  by (simp add: captureWithParameters_def bind_def lift_result_def
        split: sum.splits prod.splits)

lemma captureWithParameters_resolution:
  assumes "string_parameter parameters ''mode'' ''basic'' = Inr mode"
    and "bool_parameter parameters ''withGizmos'' True = Inr g"
    and "bool_parameter parameters ''withLabels'' False = Inr l"
    and "string_parameter parameters ''resolution'' ''1080p'' = Inr res"
  shows "captureWithParameters e parameters s
           = CaptureSceneViewScreenshot e mode g l (fst (dimensions res)) (snd (dimensions res)) s"
  using assms
  by (simp add: captureWithParameters_def bind_def lift_result_def split: prod.splits)

subsection \<open>Independence from \<open>withGizmos\<close> and \<open>withLabels\<close> in the fixed modes\<close>

lemma applyModeSettings_fixed:
  "mode \<in> {''basic'', ''labels'', ''debug''} \<Longrightarrow>
     applyModeSettings mode g sv s = applyModeSettings mode g' sv s"
  by (auto simp: applyModeSettings_def)

lemma withModeSettings_fixed:
  "mode \<in> {''basic'', ''labels'', ''debug''} \<Longrightarrow>
     withModeSettings e sv cm mode g w h fp s = withModeSettings e sv cm mode g' w h fp s"
  using applyModeSettings_fixed[of mode g sv s g']
  by (simp add: withModeSettings_def try_finally_def configureAndRender_def)

lemma snd_buildResponse:
  "snd (buildResponse e sv cm mode l w h fp ts s) = snd (buildResponse e sv cm mode l' w h fp ts s)"
  by (cases cm) (simp_all add: buildResponse_def bind_def return_def split: prod.splits sum.splits)

lemma snd_bind_cong:
  "(\<And>x s'. snd (f x s') = snd (f' x s')) \<Longrightarrow> snd (bind m f s) = snd (bind m f' s)"
  by (simp add: bind_def split: prod.splits sum.splits)

lemma snd_try_catch_return:
  "snd (try_catch body (\<lambda>ex. return (k ex)) s) = snd (body s)"
  by (simp add: try_catch_def return_def split: prod.splits sum.splits)

lemma snd_captureAttempt:
  assumes "mode \<in> {''basic'', ''labels'', ''debug''}"
  shows "snd (captureAttempt e sv mode g l w h s) = snd (captureAttempt e sv mode g' l' w h s)"
  unfolding captureAttempt_def Let_def withModeSettings_fixed[OF assms, of e sv _ g _ _ _ _ g']
proof (rule snd_bind_cong, rule snd_bind_cong)
  fix returned s'
  show "snd ((case returned of None \<Rightarrow> buildResponse e sv cm mode l w h fp ts
                | Some r \<Rightarrow> return r) s')
        = snd ((case returned of None \<Rightarrow> buildResponse e sv cm mode l' w h fp ts
                | Some r \<Rightarrow> return r) s')" for cm fp ts
    by (cases returned) (simp_all add: snd_buildResponse[of e sv cm mode l w h fp ts s' l'])
qed

lemma snd_CaptureSceneViewScreenshot:
  assumes "mode \<in> {''basic'', ''labels'', ''debug''}"
  shows "snd (CaptureSceneViewScreenshot e mode g l w h s)
           = snd (CaptureSceneViewScreenshot e mode g' l' w h s)"
  unfolding CaptureSceneViewScreenshot_def
proof (rule snd_bind_cong)
  fix sceneView s'
  show "snd ((case sceneView of
         None \<Rightarrow>
           return (CreateErrorResponse ''No Scene View available for screenshot capture''
                     ''no_scene_view'')
       | Some sv \<Rightarrow>
           try_catch (captureAttempt e sv mode g l w h) (\<lambda>ex.
             return (CreateErrorResponse (''Failed to capture screenshot: '' @ ex)
                       ''capture_failed''))) s')
     = snd ((case sceneView of
         None \<Rightarrow>
           return (CreateErrorResponse ''No Scene View available for screenshot capture''
                     ''no_scene_view'')
       | Some sv \<Rightarrow>
           try_catch (captureAttempt e sv mode g' l' w h) (\<lambda>ex.
             return (CreateErrorResponse (''Failed to capture screenshot: '' @ ex)
                       ''capture_failed''))) s')"
    by (cases sceneView)
       (simp_all only: option.case snd_try_catch_return snd_captureAttempt[OF assms, of e _ g l w h s' g' l'])
qed

subsection \<open>Evaluation of the closure, and an unrecognized mode\<close>

lemmas closure_defs =
  closure_def captureWithParameters_def lift_result_def string_parameter_def
  bool_parameter_def dimensions_def TrySetResult_def ToLower_def ToLower_char_def
  uncompleted_def text_token_def object_token_def

lemma kept_configureAndRender_unrecognized:
  assumes "mode \<notin> {''basic'', ''labels'', ''debug'', ''custom''}"
  shows "kept s (snd (configureAndRender e sv cm mode g w h fp s))"
proof -
  have a: "applyModeSettings mode g sv s = s"
    using assms by (simp add: applyModeSettings_def)
  have b: "kept s (Repaint sv s)" by (simp add: kept_def Repaint_def)
  show ?thesis
  proof (cases cm)
    case None
    with a b show ?thesis by (simp add: configureAndRender_def return_def)
  next
    case (Some c)
    have "kept (Repaint sv s) (snd (bind (renderToFile e c w h fp) (\<lambda>u. return None) (Repaint sv s)))"
      by (rule kept_bind) (rule kept_renderToFile kept_return)+
    with b have "kept s (snd (bind (renderToFile e c w h fp) (\<lambda>u. return None) (Repaint sv s)))"
      by (rule kept_trans)
    with a Some show ?thesis by (simp add: configureAndRender_def)
  qed
qed

section \<open>The claims\<close>

subsection \<open>C1: the overlay flag is restored on every exit\<close>

text \<open>
  C1. Whatever the parameters, the environment (which calls raise) and the editor, the
  \<open>drawGizmos\<close> flag of every Scene View is after \<open>CaptureSceneViewScreenshot\<close>, and after
  the whole closure, what it was before: on success, on the no-camera return, and when a
  call of the rendering or of the file write raises. The section of lines 110 to 174
  always ends by writing the snapshotted value back and repainting.
\<close>

theorem overlay_flag_restored:
  "drawGizmos (snd (CaptureSceneViewScreenshot e mode withGizmos withLabels width height s))
     = drawGizmos s
   \<and> drawGizmos (fst (closure e parameters (s, t))) = drawGizmos s
   \<and> (\<exists>evs. trace (snd (withModeSettings e sv cm mode withGizmos width height filePath s))
              = trace s @ evs @ [DrawGizmosSet sv (drawGizmos s sv), Repainted sv])"
  using kept_CaptureSceneViewScreenshot[of s e mode withGizmos withLabels width height]
    kept_closure[of s e parameters t]
    trace_withModeSettings[of e sv cm mode withGizmos width height filePath s]
  by (simp add: kept_def)

subsection \<open>C2: validation of the scene tools\<close>

text \<open>
  C2, as stated, fails for \<open>create_scene\<close>: a call that provides \<open>scenePath\<close> and no
  \<open>sceneName\<close> is rejected with a validation error, and nothing is sent.
\<close>

theorem create_scene_path_counterexample:
  "truthy (scenePath only_scenePath)
   \<and> createScene_toolHandler idle_client only_scenePath
       = (Inl (McpUnityError VALIDATION (single_quoted ''sceneName'' @ '' must be provided'')),
          idle_client)
   \<and> sendRequest_calls (snd (createScene_toolHandler idle_client only_scenePath)) = []"
  by (simp add: createScene_toolHandler_def only_scenePath_def idle_client_def truthy_def)

text \<open>
  C2, amended. \<open>create_scene\<close> requires a non-empty \<open>sceneName\<close>: with one, the request is
  handed to \<open>sendRequest\<close>; without, the handler fails with the validation error and the
  client is untouched. \<open>load_scene\<close> and \<open>delete_scene\<close> require a non-empty \<open>scenePath\<close> or a
  non-empty \<open>sceneName\<close>: with one, the request is handed to \<open>sendRequest\<close>; with neither,
  the handler fails with the validation error and the client is untouched.
\<close>

theorem scene_tools_validation:
  "(truthy (sceneName ps) \<longrightarrow>
      sendRequest_calls (snd (createScene_toolHandler m ps))
        = sendRequest_calls m @ [\<lparr>request_method = ''create_scene'', params = ps\<rparr>])
   \<and> (\<not> truthy (sceneName ps) \<longrightarrow>
      createScene_toolHandler m ps
        = (Inl (McpUnityError VALIDATION (single_quoted ''sceneName'' @ '' must be provided'')), m))
   \<and> (truthy (scenePath ps) \<or> truthy (sceneName ps) \<longrightarrow>
      sendRequest_calls (snd (loadScene_toolHandler m ps))
        = sendRequest_calls m @ [\<lparr>request_method = ''load_scene'', params = ps\<rparr>]
      \<and> sendRequest_calls (snd (deleteScene_toolHandler m ps))
        = sendRequest_calls m @ [\<lparr>request_method = ''delete_scene'', params = ps\<rparr>])
   \<and> (\<not> truthy (scenePath ps) \<and> \<not> truthy (sceneName ps) \<longrightarrow>
      loadScene_toolHandler m ps
        = (Inl (McpUnityError VALIDATION
                  (''Either '' @ single_quoted ''scenePath'' @ '' or ''
                   @ single_quoted ''sceneName'' @ '' must be provided'')), m)
      \<and> deleteScene_toolHandler m ps
        = (Inl (McpUnityError VALIDATION
                  (''Either '' @ single_quoted ''scenePath'' @ '' or ''
                   @ single_quoted ''sceneName'' @ '' must be provided'')), m))"
  by (simp add: createScene_toolHandler_def loadScene_toolHandler_def
        deleteScene_toolHandler_def sendRequest_def split: sum.splits)

theorem scene_tools_validation_witness:
  "truthy (sceneName only_sceneName)
   \<and> sendRequest_calls (snd (createScene_toolHandler idle_client only_sceneName))
       = [\<lparr>request_method = ''create_scene'', params = only_sceneName\<rparr>]
   \<and> sendRequest_calls (snd (loadScene_toolHandler idle_client only_sceneName))
       = [\<lparr>request_method = ''load_scene'', params = only_sceneName\<rparr>]
   \<and> sendRequest_calls (snd (deleteScene_toolHandler idle_client only_sceneName))
       = [\<lparr>request_method = ''delete_scene'', params = only_sceneName\<rparr>]
   \<and> truthy (scenePath only_scenePath)
   \<and> sendRequest_calls (snd (loadScene_toolHandler idle_client only_scenePath))
       = [\<lparr>request_method = ''load_scene'', params = only_scenePath\<rparr>]
   \<and> sendRequest_calls (snd (deleteScene_toolHandler idle_client only_scenePath))
       = [\<lparr>request_method = ''delete_scene'', params = only_scenePath\<rparr>]
   \<and> \<not> truthy (scenePath no_scene) \<and> \<not> truthy (sceneName no_scene)
   \<and> sendRequest_calls (snd (createScene_toolHandler idle_client no_scene)) = []
   \<and> sendRequest_calls (snd (loadScene_toolHandler idle_client no_scene)) = []
   \<and> sendRequest_calls (snd (deleteScene_toolHandler idle_client no_scene)) = []"
proof -
  have a: "truthy (sceneName only_sceneName)"
    by (simp add: only_sceneName_def truthy_def)
  have b: "\<not> truthy (scenePath no_scene)" "\<not> truthy (sceneName no_scene)"
    by (simp_all add: no_scene_def truthy_def)
  have c: "sendRequest_calls idle_client = []"
    by (simp add: idle_client_def)
  have d: "truthy (scenePath only_scenePath)"
    by (simp add: only_scenePath_def truthy_def)
  show ?thesis
    using a b d scene_tools_validation[of only_sceneName idle_client]
      scene_tools_validation[of no_scene idle_client]
      scene_tools_validation[of only_scenePath idle_client]
    by (simp add: c)
qed

subsection \<open>C3: resolution presets\<close>

text \<open>
  C3. The resolution string is lowercased and then switched on: \<open>4K\<close> gives 3840 by 2160,
  \<open>1440p\<close> gives 2560 by 1440, \<open>1080p\<close> gives 1920 by 1080, and every string whose
  lowercase form is neither \<open>1440p\<close> nor \<open>4k\<close> gives 1920 by 1080. A token that converts to
  a string never makes the extraction raise. For every invocation whose \<open>resolution\<close>
  token converts to a string, these are the width and height the closure passes to
  \<open>CaptureSceneViewScreenshot\<close> (and so the size of the temporary texture), and the
  \<open>resolution\<close> field of a successful response is their decimal notation around an \<open>x\<close>.
\<close>

theorem resolution_dimensions:
  "dimensions (ToLower ''4K'') = (3840, 2160)
   \<and> dimensions (ToLower ''1440p'') = (2560, 1440)
   \<and> dimensions (ToLower ''1080p'') = (1920, 1080)
   \<and> (ToLower r \<noteq> ''1440p'' \<and> ToLower r \<noteq> ''4k'' \<longrightarrow> dimensions (ToLower r) = (1920, 1080))
   \<and> (parameters ''resolution'' = Some token \<and> ToObject_string token = Inr (Some r) \<longrightarrow>
        string_parameter parameters ''resolution'' ''1080p'' = Inr (ToLower r))
   \<and> (parameters ''resolution'' = Some token \<and> ToObject_string token = Inr (Some r)
        \<and> string_parameter parameters ''mode'' ''basic'' = Inr mode
        \<and> bool_parameter parameters ''withGizmos'' True = Inr withGizmos
        \<and> bool_parameter parameters ''withLabels'' False = Inr withLabels \<longrightarrow>
        captureWithParameters e parameters s
          = CaptureSceneViewScreenshot e mode withGizmos withLabels
              (if ToLower r = ''1440p'' then 2560 else if ToLower r = ''4k'' then 3840 else 1920)
              (if ToLower r = ''1440p'' then 1440 else if ToLower r = ''4k'' then 2160 else 1080)
              s)
   \<and> (parameters ''resolution'' = Some token \<and> ToObject_string token = Inr (Some r)
        \<and> task_result (snd (closure e parameters (s, uncompleted))) = Some (Screenshot x) \<longrightarrow>
        r_resolution x
          = ToString_int
              (if ToLower r = ''1440p'' then 2560 else if ToLower r = ''4k'' then 3840 else 1920)
            @ ''x'' @
            ToString_int
              (if ToLower r = ''1440p'' then 1440 else if ToLower r = ''4k'' then 2160 else 1080))"
proof -
  have helpers:
    "dimensions (ToLower ''4K'') = (3840, 2160)
     \<and> dimensions (ToLower ''1440p'') = (2560, 1440)
     \<and> dimensions (ToLower ''1080p'') = (1920, 1080)
     \<and> (ToLower r \<noteq> ''1440p'' \<and> ToLower r \<noteq> ''4k'' \<longrightarrow> dimensions (ToLower r) = (1920, 1080))
     \<and> (parameters ''resolution'' = Some token \<and> ToObject_string token = Inr (Some r) \<longrightarrow>
          string_parameter parameters ''resolution'' ''1080p'' = Inr (ToLower r))"
    by (simp add: dimensions_def ToLower_def ToLower_char_def string_parameter_def)
  have d: "fst (dimensions (ToLower r))
             = (if ToLower r = ''1440p'' then 2560 else if ToLower r = ''4k'' then 3840 else 1920)"
    "snd (dimensions (ToLower r))
             = (if ToLower r = ''1440p'' then 1440 else if ToLower r = ''4k'' then 2160 else 1080)"
    by (simp_all add: dimensions_def)
  have call: "captureWithParameters e parameters s
          = CaptureSceneViewScreenshot e mode withGizmos withLabels
              (if ToLower r = ''1440p'' then 2560 else if ToLower r = ''4k'' then 3840 else 1920)
              (if ToLower r = ''1440p'' then 1440 else if ToLower r = ''4k'' then 2160 else 1080)
              s"
    if "parameters ''resolution'' = Some token" "ToObject_string token = Inr (Some r)"
      "string_parameter parameters ''mode'' ''basic'' = Inr mode"
      "bool_parameter parameters ''withGizmos'' True = Inr withGizmos"
      "bool_parameter parameters ''withLabels'' False = Inr withLabels"
  proof -
    have "string_parameter parameters ''resolution'' ''1080p'' = Inr (ToLower r)"
      using that(1,2) by (simp add: string_parameter_def)
    from captureWithParameters_resolution[OF that(3,4,5) this, of e s] show ?thesis
      by (simp only: d)
  qed
  have resp: "r_resolution x
          = ToString_int
              (if ToLower r = ''1440p'' then 2560 else if ToLower r = ''4k'' then 3840 else 1920)
            @ ''x'' @
            ToString_int
              (if ToLower r = ''1440p'' then 1440 else if ToLower r = ''4k'' then 2160 else 1080)"
    if p: "parameters ''resolution'' = Some token" "ToObject_string token = Inr (Some r)"
      and t: "task_result (snd (closure e parameters (s, uncompleted))) = Some (Screenshot x)"
  proof -
    have res: "string_parameter parameters ''resolution'' ''1080p'' = Inr (ToLower r)"
      using p by (simp add: string_parameter_def)
    have "fst (captureWithParameters e parameters s) = Inr (Screenshot x)"
      using t
      by (cases "captureWithParameters e parameters s")
         (auto simp: closure_def TrySetResult_def uncompleted_def CreateErrorResponse_def
            split: sum.splits)
    from captureWithParameters_Inr[OF this] res obtain m g l where
      "fst (CaptureSceneViewScreenshot e m g l (fst (dimensions (ToLower r)))
              (snd (dimensions (ToLower r))) s) = Inr (Screenshot x)"
      by auto
    from CaptureSceneViewScreenshot_Inr[OF this]
    have "r_resolution x = ToString_int (fst (dimensions (ToLower r))) @ ''x''
                             @ ToString_int (snd (dimensions (ToLower r)))"
      by auto
    then show ?thesis by (simp only: d)
  qed
  from helpers call resp show ?thesis by blast
qed

theorem resolution_dimensions_witness:
  "ToLower ''8K'' \<noteq> ''1440p'' \<and> ToLower ''8K'' \<noteq> ''4k''
   \<and> dimensions (ToLower ''8K'') = (1920, 1080)
   \<and> string_parameter [''resolution'' \<mapsto> text_token ''8K''] ''resolution'' ''1080p''
       = Inr (ToLower ''8K'')
   \<and> [''resolution'' \<mapsto> text_token ''4K''] ''resolution'' = Some (text_token ''4K'')
   \<and> ToObject_string (text_token ''4K'') = Inr (Some ''4K'')
   \<and> string_parameter [''resolution'' \<mapsto> text_token ''4K''] ''mode'' ''basic'' = Inr ''basic''
   \<and> bool_parameter [''resolution'' \<mapsto> text_token ''4K''] ''withGizmos'' True = Inr True
   \<and> bool_parameter [''resolution'' \<mapsto> text_token ''4K''] ''withLabels'' False = Inr False
   \<and> captureWithParameters quiet [''resolution'' \<mapsto> text_token ''4K''] editor0
       = CaptureSceneViewScreenshot quiet ''basic'' True False 3840 2160 editor0
   \<and> captureWithParameters quiet [''resolution'' \<mapsto> text_token ''8K''] editor0
       = CaptureSceneViewScreenshot quiet ''basic'' True False 1920 1080 editor0
   \<and> TemporaryTaken 7 3840 2160
       \<in> set (trace (fst (closure quiet [''resolution'' \<mapsto> text_token ''4K'']
                              (editor0, uncompleted))))
   \<and> (\<exists>x. task_result (snd (closure quiet [''resolution'' \<mapsto> text_token ''4K'']
                                 (editor0, uncompleted))) = Some (Screenshot x)
          \<and> r_resolution x = ''3840x2160'')"
proof -
  have l: "ToLower ''8K'' = ''8k''" "ToLower ''4K'' = ''4k''"
    by (simp_all add: ToLower_def ToLower_char_def)
  have a: "ToLower ''8K'' \<noteq> ''1440p'' \<and> ToLower ''8K'' \<noteq> ''4k''"
    by (simp add: l)
  have b: "[''resolution'' \<mapsto> text_token ''8K''] ''resolution'' = Some (text_token ''8K'')
           \<and> ToObject_string (text_token ''8K'') = Inr (Some ''8K'')"
    by (simp add: text_token_def)
  have c: "[''resolution'' \<mapsto> text_token ''4K''] ''resolution'' = Some (text_token ''4K'')
           \<and> ToObject_string (text_token ''4K'') = Inr (Some ''4K'')"
    by (simp add: text_token_def)
  have m: "string_parameter [''resolution'' \<mapsto> text_token k] ''mode'' ''basic'' = Inr ''basic''
           \<and> bool_parameter [''resolution'' \<mapsto> text_token k] ''withGizmos'' True = Inr True
           \<and> bool_parameter [''resolution'' \<mapsto> text_token k] ''withLabels'' False = Inr False"
    for k
    by (simp add: string_parameter_def bool_parameter_def)
  have t: "TemporaryTaken 7 3840 2160
       \<in> set (trace (fst (closure quiet [''resolution'' \<mapsto> text_token ''4K'']
                              (editor0, uncompleted))))"
    by (simp add: closure_defs capture_defs Let_def quiet_def editor0_def)
  have "\<exists>x. task_result (snd (closure quiet [''resolution'' \<mapsto> text_token ''4K'']
                                 (editor0, uncompleted))) = Some (Screenshot x)"
    by (simp add: closure_defs capture_defs Let_def quiet_def editor0_def)
  then obtain x where
    x: "task_result (snd (closure quiet [''resolution'' \<mapsto> text_token ''4K'']
                            (editor0, uncompleted))) = Some (Screenshot x)"
    by blast
  note four = resolution_dimensions[where r = "''4K''"
      and parameters = "[''resolution'' \<mapsto> text_token ''4K'']" and token = "text_token ''4K''"
      and mode = "''basic''" and withGizmos = True and withLabels = False and e = quiet
      and s = editor0 and x = x]
  note eight = resolution_dimensions[where r = "''8K''"
      and parameters = "[''resolution'' \<mapsto> text_token ''8K'']" and token = "text_token ''8K''"
      and mode = "''basic''" and withGizmos = True and withLabels = False and e = quiet
      and s = editor0]
  have r4: "r_resolution x = ''3840x2160''"
    using four c x by (simp add: l ToString_int_def)
  have c4: "captureWithParameters quiet [''resolution'' \<mapsto> text_token ''4K''] editor0
       = CaptureSceneViewScreenshot quiet ''basic'' True False 3840 2160 editor0"
    using four c m[of "''4K''"] by (simp add: l)
  have c8: "captureWithParameters quiet [''resolution'' \<mapsto> text_token ''8K''] editor0
       = CaptureSceneViewScreenshot quiet ''basic'' True False 1920 1080 editor0"
    using eight b m[of "''8K''"] by (simp add: l)
  have h8: "dimensions (ToLower ''8K'') = (1920, 1080)
            \<and> string_parameter [''resolution'' \<mapsto> text_token ''8K''] ''resolution'' ''1080p''
                = Inr (ToLower ''8K'')"
    using eight a b by blast
  from a h8 c m[of "''4K''"] c4 c8 t x r4 show ?thesis by blast
qed

subsection \<open>C4: the completion handle is fulfilled exactly once\<close>

text \<open>
  C4. Run on a task that is not yet completed, the closure calls \<open>TrySetResult\<close> exactly
  once and the task is completed afterwards: with the capture's result when the body of
  the \<open>try\<close> returns, and with the \<open>capture_exception\<close> error response when it raises.
\<close>

theorem completion_handle_fulfilled_once:
  "snd (closure e parameters (s, uncompleted))
     = (case fst (captureWithParameters e parameters s) of
          Inr result \<Rightarrow> \<lparr>task_result = Some result, TrySetResult_calls = [result]\<rparr>
        | Inl ex \<Rightarrow>
            \<lparr>task_result = Some (ErrorResponse (''Exception during screenshot capture: '' @ ex)
                                   ''capture_exception''),
             TrySetResult_calls = [ErrorResponse (''Exception during screenshot capture: '' @ ex)
                                    ''capture_exception'']\<rparr>)"
  by (simp add: closure_def TrySetResult_def uncompleted_def CreateErrorResponse_def
        split: prod.splits sum.splits)

subsection \<open>C5: failures to resolve the render target\<close>

text \<open>
  C5, as stated, fails for the missing camera. The camera is tested at line 131, inside the
  outer \<open>try\<close> and after the mode settings of lines 114 to 129: in \<open>basic\<close> mode on a view
  whose gizmos are drawn, the directory has been created, the flag has been written and
  the view repainted when the failure is returned, and the \<open>finally\<close> does restore the flag.
\<close>

theorem no_camera_counterexample:
  "fst (CaptureSceneViewScreenshot quiet ''basic'' True False 1920 1080 no_camera_editor)
     = Inr (ErrorResponse ''Scene View camera not available'' ''no_camera'')
   \<and> trace no_camera_editor = []
   \<and> trace (snd (CaptureSceneViewScreenshot quiet ''basic'' True False 1920 1080
                   no_camera_editor))
     = [Called CreateDirectory, DrawGizmosSet 0 False, Repainted 0,
        DrawGizmosSet 0 True, Repainted 0]"
  by (simp add: capture_defs Let_def quiet_def editor0_def no_camera_editor_def)

text \<open>
  C5, amended. When there is no Scene View, the result is the \<open>no_scene_view\<close> failure and
  the editor is as before (the trace only records the call of \<open>GetWindow\<close>). When the view
  the code resolves, the last active one or the one \<open>GetWindow\<close> gives, has no camera (and
  the screenshot directory exists or can be created), the result is the \<open>no_camera\<close>
  failure; no rendering step has run: the camera targets, the active texture, the
  temporaries and the files are as before, and between the start and the restoration only
  the call of \<open>GetWindow\<close>, the directory creation and writes of the view's flag took
  place; the invocation ends with the repaint, the restoration of the snapshotted flag and
  a second repaint.
\<close>

theorem target_resolution_failures:
  "(lastActiveSceneView s = None \<and> throws e GetWindow = None \<and> sceneViewWindow s = None \<longrightarrow>
      CaptureSceneViewScreenshot e mode withGizmos withLabels width height s
        = (Inr (ErrorResponse ''No Scene View available for screenshot capture''
                  ''no_scene_view''),
           s\<lparr>trace := trace s @ [Called GetWindow]\<rparr>))
   \<and> (lastActiveSceneView s = Some sv \<and> camera s sv = None \<and> throws e CreateDirectory = None \<longrightarrow>
      fst (CaptureSceneViewScreenshot e mode withGizmos withLabels width height s)
        = Inr (ErrorResponse ''Scene View camera not available'' ''no_camera'')
      \<and> kept s (snd (CaptureSceneViewScreenshot e mode withGizmos withLabels width height s))
      \<and> files (snd (CaptureSceneViewScreenshot e mode withGizmos withLabels width height s))
          = files s
      \<and> (\<exists>evs. trace (snd (CaptureSceneViewScreenshot e mode withGizmos withLabels width
                            height s))
            = trace s @ evs @ [Repainted sv, DrawGizmosSet sv (drawGizmos s sv), Repainted sv]
          \<and> set evs \<subseteq> {Called CreateDirectory} \<union> range (DrawGizmosSet sv)))
   \<and> (fst (resolveSceneView e s) = Inr (Some sv) \<and> camera s sv = None
       \<and> (Path_Combine [dataPath e, ''..'', ''Temp'', ''MCPScreenshots''] \<in> set (directories s)
           \<or> throws e CreateDirectory = None) \<longrightarrow>
      fst (CaptureSceneViewScreenshot e mode withGizmos withLabels width height s)
        = Inr (ErrorResponse ''Scene View camera not available'' ''no_camera'')
      \<and> kept s (snd (CaptureSceneViewScreenshot e mode withGizmos withLabels width height s))
      \<and> files (snd (CaptureSceneViewScreenshot e mode withGizmos withLabels width height s))
          = files s
      \<and> (\<exists>evs. trace (snd (CaptureSceneViewScreenshot e mode withGizmos withLabels width
                            height s))
            = trace s @ evs @ [Repainted sv, DrawGizmosSet sv (drawGizmos s sv), Repainted sv]
          \<and> set evs \<subseteq> {Called GetWindow, Called CreateDirectory}
                          \<union> range (DrawGizmosSet sv)))"
  using no_view[of s e mode withGizmos withLabels width height]
    no_camera[of s sv e mode withGizmos withLabels width height]
    no_camera_resolved[of e s sv mode withGizmos withLabels width height]
    kept_CaptureSceneViewScreenshot[of s e mode withGizmos withLabels width height]
  by blast

theorem target_resolution_failures_witness:
  "lastActiveSceneView no_view_editor = None \<and> throws quiet GetWindow = None
   \<and> sceneViewWindow no_view_editor = None
   \<and> CaptureSceneViewScreenshot quiet ''basic'' True False 1920 1080 no_view_editor
       = (Inr (ErrorResponse ''No Scene View available for screenshot capture''
                 ''no_scene_view''),
          no_view_editor\<lparr>trace := [Called GetWindow]\<rparr>)
   \<and> lastActiveSceneView no_camera_editor = Some 0 \<and> camera no_camera_editor 0 = None
   \<and> throws quiet CreateDirectory = None
   \<and> fst (CaptureSceneViewScreenshot quiet ''basic'' True False 1920 1080 no_camera_editor)
       = Inr (ErrorResponse ''Scene View camera not available'' ''no_camera'')
   \<and> files (snd (CaptureSceneViewScreenshot quiet ''basic'' True False 1920 1080
                   no_camera_editor)) = files no_camera_editor
   \<and> lastActiveSceneView window_no_camera_editor = None
   \<and> fst (resolveSceneView quiet window_no_camera_editor) = Inr (Some 0)
   \<and> camera window_no_camera_editor 0 = None
   \<and> fst (CaptureSceneViewScreenshot quiet ''basic'' True False 1920 1080
            window_no_camera_editor)
       = Inr (ErrorResponse ''Scene View camera not available'' ''no_camera'')
   \<and> kept window_no_camera_editor
        (snd (CaptureSceneViewScreenshot quiet ''basic'' True False 1920 1080
                window_no_camera_editor))
   \<and> trace (snd (CaptureSceneViewScreenshot quiet ''basic'' True False 1920 1080
                   window_no_camera_editor))
       = [Called GetWindow, Called CreateDirectory, DrawGizmosSet 0 False, Repainted 0,
          DrawGizmosSet 0 True, Repainted 0]"
proof -
  have a: "lastActiveSceneView no_view_editor = None \<and> throws quiet GetWindow = None
           \<and> sceneViewWindow no_view_editor = None \<and> trace no_view_editor = []"
    by (simp add: no_view_editor_def editor0_def quiet_def)
  have b: "lastActiveSceneView no_camera_editor = Some 0 \<and> camera no_camera_editor 0 = None
           \<and> throws quiet CreateDirectory = None"
    by (simp add: no_camera_editor_def editor0_def quiet_def)
  have c: "lastActiveSceneView window_no_camera_editor = None
           \<and> fst (resolveSceneView quiet window_no_camera_editor) = Inr (Some 0)
           \<and> camera window_no_camera_editor 0 = None"
    by (simp add: window_no_camera_editor_def editor0_def quiet_def resolveSceneView_def
          bind_def return_def extern_def)
  have t: "trace (snd (CaptureSceneViewScreenshot quiet ''basic'' True False 1920 1080
                   window_no_camera_editor))
       = [Called GetWindow, Called CreateDirectory, DrawGizmosSet 0 False, Repainted 0,
          DrawGizmosSet 0 True, Repainted 0]"
    by (simp add: capture_defs Let_def quiet_def editor0_def window_no_camera_editor_def)
  show ?thesis
    using a b c t
      target_resolution_failures[where s = no_view_editor and e = quiet and mode = "''basic''"
        and withGizmos = True and withLabels = False and width = 1920 and height = 1080
        and sv = 0]
      target_resolution_failures[where s = no_camera_editor and e = quiet
        and mode = "''basic''" and withGizmos = True and withLabels = False and width = 1920
        and height = 1080 and sv = 0]
      target_resolution_failures[where s = window_no_camera_editor and e = quiet
        and mode = "''basic''" and withGizmos = True and withLabels = False and width = 1920
        and height = 1080 and sv = 0]
    by simp
qed

subsection \<open>C6: the render target is restored and the temporary surface released\<close>

text \<open>
  C6. Whatever call raises, the camera targets, the active render texture and the set of
  temporaries taken are after the invocation what they were before. Once the temporary
  texture has been obtained, the rendering section of lines 140 to 167 ends, on every
  exit, by setting the camera's target and the active texture to their previous values and
  releasing that texture.
\<close>

theorem render_target_restored:
  "targetTexture (snd (CaptureSceneViewScreenshot e mode withGizmos withLabels width height s))
     = targetTexture s
   \<and> active (snd (CaptureSceneViewScreenshot e mode withGizmos withLabels width height s))
     = active s
   \<and> temporaries (snd (CaptureSceneViewScreenshot e mode withGizmos withLabels width height s))
     = temporaries s
   \<and> (throws e GetTemporary = None \<longrightarrow>
        (\<exists>evs. trace (snd (renderToFile e c width height filePath s))
           = trace s @ TemporaryTaken (pooled e) width height # evs
               @ [TargetTextureSet c (targetTexture s c), ActiveSet (active s),
                  TemporaryReleased (pooled e)]))"
  using kept_CaptureSceneViewScreenshot[of s e mode withGizmos withLabels width height]
    trace_renderToFile[of e c width height filePath s]
  by (simp add: kept_def)

theorem render_target_restored_witness:
  "throws (raising ReadPixels) GetTemporary = None
   \<and> fst (CaptureSceneViewScreenshot (raising ReadPixels) ''debug'' True False 1920 1080 editor0)
       = Inr (ErrorResponse ''Failed to capture screenshot: boom'' ''capture_failed'')
   \<and> targetTexture (snd (CaptureSceneViewScreenshot (raising ReadPixels) ''debug'' True False
                           1920 1080 editor0)) = targetTexture editor0
   \<and> active (snd (CaptureSceneViewScreenshot (raising ReadPixels) ''debug'' True False
                    1920 1080 editor0)) = active editor0
   \<and> temporaries (snd (CaptureSceneViewScreenshot (raising ReadPixels) ''debug'' True False
                         1920 1080 editor0)) = temporaries editor0
   \<and> (\<exists>evs. trace (snd (renderToFile (raising ReadPixels) 1 1920 1080 ''shot.png'' editor0))
         = trace editor0 @ TemporaryTaken (pooled (raising ReadPixels)) 1920 1080 # evs
             @ [TargetTextureSet 1 (targetTexture editor0 1), ActiveSet (active editor0),
                TemporaryReleased (pooled (raising ReadPixels))])"
proof -
  have a: "throws (raising ReadPixels) GetTemporary = None"
    by (simp add: raising_def quiet_def)
  have b: "fst (CaptureSceneViewScreenshot (raising ReadPixels) ''debug'' True False 1920 1080
                  editor0)
             = Inr (ErrorResponse ''Failed to capture screenshot: boom'' ''capture_failed'')"
    by (simp add: capture_defs Let_def raising_def quiet_def editor0_def)
  show ?thesis
    using a b
      render_target_restored[where e = "raising ReadPixels" and mode = "''debug''"
        and withGizmos = True and withLabels = False and width = 1920 and height = 1080
        and s = editor0 and c = 1 and filePath = "''shot.png''"]
    by simp
qed

subsection \<open>C7: error codes of a failure\<close>

text \<open>
  C7, as stated, fails: the failures carry four different codes, not three. An exception
  caught inside \<open>CaptureSceneViewScreenshot\<close> is answered with \<open>capture_failed\<close>, one caught
  by the closure (here a \<open>mode\<close> token that does not convert to a string) with
  \<open>capture_exception\<close>.
\<close>

theorem four_error_codes_counterexample:
  "task_result (snd (closure quiet Map.empty (no_view_editor, uncompleted)))
     = Some (ErrorResponse ''No Scene View available for screenshot capture'' ''no_scene_view'')
   \<and> task_result (snd (closure quiet Map.empty (no_camera_editor, uncompleted)))
     = Some (ErrorResponse ''Scene View camera not available'' ''no_camera'')
   \<and> task_result (snd (closure (raising ReadPixels) Map.empty (editor0, uncompleted)))
     = Some (ErrorResponse ''Failed to capture screenshot: boom'' ''capture_failed'')
   \<and> task_result (snd (closure quiet [''mode'' \<mapsto> object_token] (editor0, uncompleted)))
     = Some (ErrorResponse
               ''Exception during screenshot capture: Can not convert Object to String.''
               ''capture_exception'')"
  by (simp add: closure_defs capture_defs Let_def quiet_def raising_def editor0_def
        no_view_editor_def no_camera_editor_def)

text \<open>
  C7, amended. Every error response the closure completes its task with carries a message
  and a code, and the code is one of \<open>no_scene_view\<close>, \<open>no_camera\<close>, \<open>capture_failed\<close> and
  \<open>capture_exception\<close>.
\<close>

theorem failure_error_codes:
  assumes "task_result (snd (closure e parameters (s, uncompleted)))
             = Some (ErrorResponse msg code)"
  shows "code \<in> {''no_scene_view'', ''no_camera'', ''capture_failed'', ''capture_exception''}"
proof (cases "captureWithParameters e parameters s")
  case (Pair r0 s')
  show ?thesis
  proof (cases r0)
    case (Inl ex)
    with Pair assms show ?thesis
      by (simp add: closure_def TrySetResult_def uncompleted_def CreateErrorResponse_def)
  next
    case (Inr r)
    with Pair assms have r: "r = ErrorResponse msg code"
      by (simp add: closure_def TrySetResult_def uncompleted_def)
    have "fst (captureWithParameters e parameters s) = Inr r"
      using Pair Inr by simp
    from captureWithParameters_Inr[OF this] obtain mode g l res where
      "fst (CaptureSceneViewScreenshot e mode g l (fst (dimensions res)) (snd (dimensions res)) s)
         = Inr r"
      by blast
    from CaptureSceneViewScreenshot_Inr[OF this] show ?thesis
      unfolding r by auto
  qed
qed

theorem failure_error_codes_witness:
  "task_result (snd (closure quiet Map.empty (no_camera_editor, uncompleted)))
     = Some (ErrorResponse ''Scene View camera not available'' ''no_camera'')
   \<and> ''no_camera'' \<in> {''no_scene_view'', ''no_camera'', ''capture_failed'', ''capture_exception''}"
proof -
  have a: "task_result (snd (closure quiet Map.empty (no_camera_editor, uncompleted)))
             = Some (ErrorResponse ''Scene View camera not available'' ''no_camera'')"
    by (simp add: closure_defs capture_defs Let_def quiet_def editor0_def no_camera_editor_def)
  from a failure_error_codes[OF a] show ?thesis by (rule conjI)
qed

subsection \<open>C8: the fixed modes ignore \<open>withGizmos\<close> and \<open>withLabels\<close>\<close>

text \<open>
  C8. In the modes \<open>basic\<close>, \<open>labels\<close> and \<open>debug\<close>, two invocations that differ only in
  \<open>withGizmos\<close> and \<open>withLabels\<close> apply the same settings to the view, and leave the same
  editor with the same trace of writes behind: the same value was written to \<open>drawGizmos\<close>.
\<close>

theorem fixed_modes_ignore_flags:
  assumes "mode \<in> {''basic'', ''labels'', ''debug''}"
  shows "applyModeSettings mode withGizmos sv s = applyModeSettings mode withGizmos' sv s
         \<and> snd (CaptureSceneViewScreenshot e mode withGizmos withLabels width height s)
           = snd (CaptureSceneViewScreenshot e mode withGizmos' withLabels' width height s)"
  using applyModeSettings_fixed[OF assms] snd_CaptureSceneViewScreenshot[OF assms]
  by blast

theorem fixed_modes_ignore_flags_witness:
  "''labels'' \<in> {''basic'', ''labels'', ''debug''}
   \<and> applyModeSettings ''labels'' False 0 editor0 = applyModeSettings ''labels'' True 0 editor0
   \<and> drawGizmos (applyModeSettings ''labels'' False 0 editor0) 0 = True
   \<and> snd (CaptureSceneViewScreenshot quiet ''labels'' False True 1920 1080 editor0)
       = snd (CaptureSceneViewScreenshot quiet ''labels'' True False 1920 1080 editor0)"
proof -
  have a: "''labels'' \<in> {''basic'', ''labels'', ''debug''}" by simp
  have b: "drawGizmos (applyModeSettings ''labels'' False 0 editor0) 0 = True"
    by (simp add: applyModeSettings_def set_drawGizmos_def)
  from a b fixed_modes_ignore_flags[OF a, where withGizmos = False and withGizmos' = True
      and sv = 0 and s = editor0 and e = quiet and withLabels = True and withLabels' = False
      and width = 1920 and height = 1080]
  show ?thesis by blast
qed

subsection \<open>C9: \<open>withGizmos\<close> of the response\<close>

text \<open>
  C9. The \<open>withGizmos\<close> field of a successful response is the \<open>drawGizmos\<close> flag of the
  Scene View as read after the \<open>finally\<close>, which is the flag the view had before the
  invocation. In the witness the view draws its gizmos, the mode is \<open>basic\<close> (which renders
  without them) and the parameter \<open>withGizmos\<close> is false: the response says true.
\<close>

theorem withGizmos_reports_restored_flag:
  assumes "fst (CaptureSceneViewScreenshot e mode withGizmos withLabels width height s)
             = Inr (Screenshot r)"
  shows "\<exists>sv. fst (resolveSceneView e s) = Inr (Some sv)
           \<and> r_withGizmos r = drawGizmos s sv
           \<and> r_withGizmos r
               = drawGizmos (snd (CaptureSceneViewScreenshot e mode withGizmos withLabels
                                    width height s)) sv"
proof -
  from CaptureSceneViewScreenshot_Inr[OF assms] obtain sv where
    "fst (resolveSceneView e s) = Inr (Some sv)" "r_withGizmos r = drawGizmos s sv"
    by auto
  moreover have "drawGizmos (snd (CaptureSceneViewScreenshot e mode withGizmos withLabels
                                    width height s)) = drawGizmos s"
    using kept_CaptureSceneViewScreenshot[of s e mode withGizmos withLabels width height]
    by (simp add: kept_def)
  ultimately show ?thesis by auto
qed

theorem withGizmos_reports_restored_flag_witness:
  "\<exists>r. fst (CaptureSceneViewScreenshot quiet ''basic'' False False 1920 1080 editor0)
          = Inr (Screenshot r)
       \<and> fst (resolveSceneView quiet editor0) = Inr (Some 0)
       \<and> drawGizmos editor0 0 = True
       \<and> drawGizmos (applyModeSettings ''basic'' False 0 editor0) 0 = False
       \<and> r_withGizmos r = True"
proof -
  have q: "\<forall>c. throws quiet c = None" by (simp add: quiet_def)
  have v: "lastActiveSceneView editor0 = Some 0" "camera editor0 0 = Some 1"
    by (simp_all add: editor0_def)
  from quiet_success[OF q v] obtain r where
    r: "fst (CaptureSceneViewScreenshot quiet ''basic'' False False 1920 1080 editor0)
          = Inr (Screenshot r)"
    by blast
  have res: "fst (resolveSceneView quiet editor0) = Inr (Some 0)"
    by (simp add: resolveSceneView_def return_def editor0_def)
  from withGizmos_reports_restored_flag[OF r] res
  have "r_withGizmos r = drawGizmos editor0 0" by auto
  moreover have "drawGizmos editor0 0 = True" by (simp add: editor0_def)
  moreover have "drawGizmos (applyModeSettings ''basic'' False 0 editor0) 0 = False"
    by (simp add: applyModeSettings_def set_drawGizmos_def)
  ultimately show ?thesis using r res by blast
qed

subsection \<open>C10: an unrecognized mode\<close>

text \<open>
  C10. A \<open>mode\<close> string whose lowercase form is none of \<open>basic\<close>, \<open>labels\<close>, \<open>debug\<close> and
  \<open>custom\<close> is extracted as that lowercase form, neither raising nor replaced by \<open>basic\<close>;
  the mode settings leave the editor as it is, the flags of the views are unchanged during
  the rendering, a successful response carries the lowercase form in \<open>mode\<close> and
  \<open>captureType\<close>, and where no call raises and the view has a camera the capture succeeds.
\<close>

theorem unrecognized_mode_carried_through:
  assumes "parameters ''mode'' = Some token"
    and "ToObject_string token = Inr (Some m)"
    and "ToLower m \<notin> {''basic'', ''labels'', ''debug'', ''custom''}"
  shows "string_parameter parameters ''mode'' ''basic'' = Inr (ToLower m)
   \<and> applyModeSettings (ToLower m) withGizmos sv s = s
   \<and> drawGizmos (snd (configureAndRender e sv cm (ToLower m) withGizmos width height filePath s))
       = drawGizmos s
   \<and> (fst (captureWithParameters e parameters s) = Inr (Screenshot r) \<longrightarrow>
        r_mode r = ToLower m \<and> r_captureType r = ''MCP '' @ ToLower m @ '' capture'')
   \<and> ((\<forall>k. throws e k = None) \<and> lastActiveSceneView s = Some sv \<and> camera s sv = Some c \<longrightarrow>
        (\<exists>x. fst (CaptureSceneViewScreenshot e (ToLower m) withGizmos withLabels width height s)
               = Inr (Screenshot x) \<and> r_mode x = ToLower m))"
proof -
  have p: "string_parameter parameters ''mode'' ''basic'' = Inr (ToLower m)"
    using assms(1,2) by (simp add: string_parameter_def)
  have a: "applyModeSettings (ToLower m) withGizmos sv s = s"
    using assms(3) by (simp add: applyModeSettings_def)
  have b: "drawGizmos (snd (configureAndRender e sv cm (ToLower m) withGizmos width height
                              filePath s)) = drawGizmos s"
    using kept_configureAndRender_unrecognized[OF assms(3), of s e sv cm withGizmos width height
        filePath]
    by (simp add: kept_def)
  have c: "r_mode r = ToLower m \<and> r_captureType r = ''MCP '' @ ToLower m @ '' capture''"
    if h: "fst (captureWithParameters e parameters s) = Inr (Screenshot r)"
  proof -
    from captureWithParameters_Inr[OF h] p obtain g l res where
      "fst (CaptureSceneViewScreenshot e (ToLower m) g l (fst (dimensions res))
              (snd (dimensions res)) s) = Inr (Screenshot r)"
      by auto
    from CaptureSceneViewScreenshot_Inr[OF this] show ?thesis by auto
  qed
  have d: "\<exists>x. fst (CaptureSceneViewScreenshot e (ToLower m) withGizmos withLabels width height s)
               = Inr (Screenshot x) \<and> r_mode x = ToLower m"
    if q: "\<forall>k. throws e k = None" and v: "lastActiveSceneView s = Some sv"
      and k: "camera s sv = Some c"
  proof -
    from quiet_success[OF q v k] obtain x where
      x: "fst (CaptureSceneViewScreenshot e (ToLower m) withGizmos withLabels width height s)
            = Inr (Screenshot x)"
      by blast
    from CaptureSceneViewScreenshot_Inr[OF x] have "r_mode x = ToLower m" by auto
    with x show ?thesis by blast
  qed
  from p a b c d show ?thesis by blast
qed

theorem unrecognized_mode_carried_through_witness:
  "[''mode'' \<mapsto> text_token ''Fancy''] ''mode'' = Some (text_token ''Fancy'')
   \<and> ToObject_string (text_token ''Fancy'') = Inr (Some ''Fancy'')
   \<and> ToLower ''Fancy'' = ''fancy''
   \<and> ''fancy'' \<notin> {''basic'', ''labels'', ''debug'', ''custom''}
   \<and> applyModeSettings ''fancy'' False 0 editor0 = editor0
   \<and> (\<exists>r. fst (captureWithParameters quiet [''mode'' \<mapsto> text_token ''Fancy''] editor0)
             = Inr (Screenshot r)
          \<and> r_mode r = ''fancy'' \<and> r_captureType r = ''MCP fancy capture'')
   \<and> (\<forall>k. throws quiet k = None) \<and> lastActiveSceneView editor0 = Some 0
   \<and> camera editor0 0 = Some 1
   \<and> (\<exists>x. fst (CaptureSceneViewScreenshot quiet ''fancy'' False False 1920 1080 editor0)
             = Inr (Screenshot x) \<and> r_mode x = ''fancy'')"
proof -
  have l: "ToLower ''Fancy'' = ''fancy''"
    by (simp add: ToLower_def ToLower_char_def)
  have a: "[''mode'' \<mapsto> text_token ''Fancy''] ''mode'' = Some (text_token ''Fancy'')"
    by simp
  have b: "ToObject_string (text_token ''Fancy'') = Inr (Some ''Fancy'')"
    by (simp add: text_token_def)
  have c: "ToLower ''Fancy'' \<notin> {''basic'', ''labels'', ''debug'', ''custom''}"
    by (simp add: l)
  have e: "\<exists>r. fst (captureWithParameters quiet [''mode'' \<mapsto> text_token ''Fancy''] editor0)
             = Inr (Screenshot r)"
    by (simp add: closure_defs capture_defs Let_def quiet_def editor0_def)
  then obtain r where
    r: "fst (captureWithParameters quiet [''mode'' \<mapsto> text_token ''Fancy''] editor0)
          = Inr (Screenshot r)"
    by blast
  have q: "(\<forall>k. throws quiet k = None) \<and> lastActiveSceneView editor0 = Some 0
           \<and> camera editor0 0 = Some 1"
    by (simp add: quiet_def editor0_def)
  from unrecognized_mode_carried_through[where parameters = "[''mode'' \<mapsto> text_token ''Fancy'']"
      and token = "text_token ''Fancy''" and m = "''Fancy''" and withGizmos = False and sv = 0
      and s = editor0 and e = quiet and r = r and c = 1 and withLabels = False
      and width = 1920 and height = 1080, OF a b c]
  have "applyModeSettings (ToLower ''Fancy'') False 0 editor0 = editor0"
    and "fst (captureWithParameters quiet [''mode'' \<mapsto> text_token ''Fancy''] editor0)
           = Inr (Screenshot r) \<longrightarrow>
         r_mode r = ToLower ''Fancy'' \<and> r_captureType r = ''MCP '' @ ToLower ''Fancy'' @ '' capture''"
    and "(\<forall>k. throws quiet k = None) \<and> lastActiveSceneView editor0 = Some 0
           \<and> camera editor0 0 = Some 1 \<longrightarrow>
         (\<exists>x. fst (CaptureSceneViewScreenshot quiet (ToLower ''Fancy'') False False 1920 1080
                     editor0) = Inr (Screenshot x) \<and> r_mode x = ToLower ''Fancy'')"
    by blast+
  with r l a b c q show ?thesis by auto
qed

end
